theory Spec2Isabelle
  imports Main "HOL-Library.Word" "HOL-Library.Sublist" "HOL-Library.AList"
begin

section \<open>Outcomes of a Go call\<close>

text \<open>
  A Go function of this package ends in one of three ways: it returns a value with a
  nil error, it returns a non-nil error, or it panics. The two error values the
  package builds are the one \<open>os.Open\<close> returns for a file it cannot open and the one
  \<open>fmt.Errorf\<close> builds from a formatted message.
\<close>

datatype error =
    OpenError string  \<comment> \<open>\<open>os.Open\<close> failed on this file name\<close>
  | Errorf string     \<comment> \<open>\<open>fmt.Errorf\<close>, with the formatted message\<close>

datatype panic =
    PanicError error           \<comment> \<open>\<open>panic(err)\<close>\<close>
  | IndexOutOfRange nat nat    \<comment> \<open>runtime error: index \<open>i\<close> out of range with length \<open>n\<close>\<close>
  | ConversionFailure string   \<comment> \<open>a numeric conversion of this text failed\<close>

datatype 'a result = Ok 'a | Err error | Panic panic

fun bind :: "'a result \<Rightarrow> ('a \<Rightarrow> 'b result) \<Rightarrow> 'b result" where
  "bind (Ok x) f = f x"
| "bind (Err e) f = Err e"
| "bind (Panic p) f = Panic p"

text \<open>Indexing a slice: Go panics out of range.\<close>

definition index :: "'a list \<Rightarrow> nat \<Rightarrow> 'a result" where
  "index xs i = (if i < length xs then Ok (xs ! i) else Panic (IndexOutOfRange i (length xs)))"

section \<open>The string functions of the Go libraries the package calls\<close>

text \<open>
  A Go string is a sequence of bytes, as an Isabelle \<open>string\<close> is.
  \<open>strings.Fields\<close> splits a string around each run of white space, as
  \<open>unicode.IsSpace\<close> defines it on the UTF-8 decoding of the string, and returns the
  non-empty pieces. The white space runes are the six ASCII ones, U+0085, U+00A0,
  U+1680, U+2000 to U+200A, U+2028, U+2029, U+202F, U+205F and U+3000. Each is encoded
  by a sequence starting with an ASCII byte or a UTF-8 lead byte, which never occurs
  inside another well-formed encoding, so matching the encodings on the bytes is the
  same as decoding the runes. \<open>spaceWidth s\<close> is the number of bytes of the white space
  rune \<open>s\<close> starts with, and 0 when it starts with none.
\<close>

definition asciiSpace :: "char \<Rightarrow> bool" where
  "asciiSpace c = (c = CHR 0x09 \<or> c = CHR 0x0A \<or> c = CHR 0x0B \<or> c = CHR 0x0C
      \<or> c = CHR 0x0D \<or> c = CHR 0x20)"

definition generalPunctuationSpace :: "char \<Rightarrow> bool" where
  \<comment> \<open>the third byte of U+2000..U+200A, U+2028, U+2029, U+202F after \<open>E2 80\<close>\<close>
  "generalPunctuationSpace c =
     (c = CHR 0x80 \<or> c = CHR 0x81 \<or> c = CHR 0x82 \<or> c = CHR 0x83 \<or> c = CHR 0x84
      \<or> c = CHR 0x85 \<or> c = CHR 0x86 \<or> c = CHR 0x87 \<or> c = CHR 0x88 \<or> c = CHR 0x89
      \<or> c = CHR 0x8A \<or> c = CHR 0xA8 \<or> c = CHR 0xA9 \<or> c = CHR 0xAF)"

fun spaceWidth :: "string \<Rightarrow> nat" where
  "spaceWidth [] = 0"
| "spaceWidth (c # cs) =
     (if asciiSpace c then 1
      else if c = CHR 0xC2 \<and> (take 1 cs = [CHR 0x85] \<or> take 1 cs = [CHR 0xA0]) then 2
      else if c = CHR 0xE1 \<and> take 2 cs = [CHR 0x9A, CHR 0x80] then 3
      else if c = CHR 0xE2 \<and> take 1 cs = [CHR 0x80]
              \<and> list_ex generalPunctuationSpace (take 1 (drop 1 cs)) then 3
      else if c = CHR 0xE2 \<and> take 2 cs = [CHR 0x81, CHR 0x9F] then 3
      else if c = CHR 0xE3 \<and> take 2 cs = [CHR 0x80, CHR 0x80] then 3
      else 0)"

text \<open>
  \<open>fieldsFrom cur s\<close>: the fields of \<open>s\<close>, when \<open>cur\<close> holds the bytes of the field
  being read.
\<close>

definition flush :: "string \<Rightarrow> string list" where
  "flush cur = (if cur = [] then [] else [cur])"

function fieldsFrom :: "string \<Rightarrow> string \<Rightarrow> string list" where
  "fieldsFrom cur [] = flush cur"
| "fieldsFrom cur (c # cs) =
     (if spaceWidth (c # cs) = 0 then fieldsFrom (cur @ [c]) cs
      else flush cur @ fieldsFrom [] (drop (spaceWidth (c # cs)) (c # cs)))"
  by pat_completeness auto
termination
  by (relation "measure (\<lambda>(cur, s). length s)") auto

definition Fields :: "string \<Rightarrow> string list" where
  "Fields s = fieldsFrom [] s"

text \<open>
  \<open>strings.Split(s, ":")\<close>: the pieces of \<open>s\<close> between the separators; one piece more
  than there are separators, so never an empty slice.
\<close>

fun splitFrom :: "char \<Rightarrow> string \<Rightarrow> string \<Rightarrow> string list" where
  "splitFrom sep cur [] = [cur]"
| "splitFrom sep cur (c # cs) =
     (if c = sep then cur # splitFrom sep [] cs else splitFrom sep (cur @ [c]) cs)"

definition Split :: "string \<Rightarrow> char \<Rightarrow> string list" where
  "Split s sep = splitFrom sep [] s"

text \<open>
  \<open>str.Trim\<close> of the islazy library is \<open>strings.Trim(s, "\r\n\t ")\<close>: it removes the
  leading and trailing bytes that are one of these four.
\<close>

definition cutset :: "char \<Rightarrow> bool" where
  "cutset c = (c = CHR 0x0D \<or> c = CHR 0x0A \<or> c = CHR 0x09 \<or> c = CHR 0x20)"

definition Trim :: "string \<Rightarrow> string" where
  "Trim s = rev (dropWhile cutset (rev (dropWhile cutset s)))"

text \<open>The verb \<open>%d\<close> of \<open>fmt\<close>: an integer in decimal.\<close>

definition digitChar :: "nat \<Rightarrow> char" where
  "digitChar d = ''0123456789'' ! d"

fun natDigits :: "nat \<Rightarrow> string" where
  "natDigits n = (if n < 10 then [digitChar n] else natDigits (n div 10) @ [digitChar (n mod 10)])"

declare natDigits.simps [simp del]

definition fmt_d :: "int \<Rightarrow> string" where
  "fmt_d i = (if i < 0 then CHR ''-'' # natDigits (nat (- i)) else natDigits (nat i))"

section \<open>Numeric conversions\<close>

text \<open>
  Modelled from the spec: \<open>hexToInt\<close>, \<open>hexToIP\<close> and \<open>decToInt\<close> are functions of
  the package \<open>host\<close> that are called in \<open>network.go\<close> and defined in a file that is
  not among the sources. The specification says that a port and a state are
  big-endian hexadecimal, that an address is hexadecimal with its bytes reversed
  (\<open>0100007F\<close> is 127.0.0.1), that an inode is decimal, and that a failed conversion
  is a fatal parse failure for the line. Each returns a single value in the source,
  so the failure is a panic here. The values are not bounded.
\<close>

definition hexDigit :: "char \<Rightarrow> nat option" where
  "hexDigit c =
     (let n = of_char c :: nat in
      if 48 \<le> n \<and> n \<le> 57 then Some (n - 48)
      else if 65 \<le> n \<and> n \<le> 70 then Some (n - 55)
      else if 97 \<le> n \<and> n \<le> 102 then Some (n - 87)
      else None)"

fun hexValue :: "nat \<Rightarrow> string \<Rightarrow> nat option" where
  "hexValue acc [] = Some acc"
| "hexValue acc (c # cs) =
     (case hexDigit c of None \<Rightarrow> None | Some d \<Rightarrow> hexValue (16 * acc + d) cs)"

definition hexToInt :: "string \<Rightarrow> nat result" where
  "hexToInt h =
     (if h = [] then Panic (ConversionFailure h)
      else case hexValue 0 h of None \<Rightarrow> Panic (ConversionFailure h) | Some v \<Rightarrow> Ok v)"

type_synonym byte = "8 word"

fun hexBytes :: "string \<Rightarrow> byte list option" where
  "hexBytes [] = Some []"
| "hexBytes [c] = None"
| "hexBytes (c # d # cs) =
     (case (hexDigit c, hexDigit d, hexBytes cs) of
        (Some x, Some y, Some bs) \<Rightarrow> Some (of_nat (16 * x + y) # bs)
      | _ \<Rightarrow> None)"

definition hexToIP :: "string \<Rightarrow> byte list result" where
  "hexToIP h =
     (if h = [] then Panic (ConversionFailure h)
      else case hexBytes h of None \<Rightarrow> Panic (ConversionFailure h) | Some bs \<Rightarrow> Ok (rev bs))"

definition decDigit :: "char \<Rightarrow> nat option" where
  "decDigit c =
     (let n = of_char c :: nat in if 48 \<le> n \<and> n \<le> 57 then Some (n - 48) else None)"

fun decValue :: "nat \<Rightarrow> string \<Rightarrow> nat option" where
  "decValue acc [] = Some acc"
| "decValue acc (c # cs) =
     (case decDigit c of None \<Rightarrow> None | Some d \<Rightarrow> decValue (10 * acc + d) cs)"

definition decToInt :: "string \<Rightarrow> int result" where
  "decToInt n =
     (if n = [] then Panic (ConversionFailure n)
      else case decValue 0 n of None \<Rightarrow> Panic (ConversionFailure n) | Some v \<Rightarrow> Ok (int v))"

section \<open>The data model of \<open>network.go\<close>\<close>

text \<open>The TCP states of the kernel, \<open>iota + 1\<close> onwards.\<close>

definition TCP_ESTABLISHED :: nat where "TCP_ESTABLISHED = 1"
definition TCP_SYN_SENT :: nat where "TCP_SYN_SENT = 2"
definition TCP_SYN_RECV :: nat where "TCP_SYN_RECV = 3"
definition TCP_FIN_WAIT1 :: nat where "TCP_FIN_WAIT1 = 4"
definition TCP_FIN_WAIT2 :: nat where "TCP_FIN_WAIT2 = 5"
definition TCP_TIME_WAIT :: nat where "TCP_TIME_WAIT = 6"
definition TCP_CLOSE :: nat where "TCP_CLOSE = 7"
definition TCP_CLOSE_WAIT :: nat where "TCP_CLOSE_WAIT = 8"
definition TCP_LAST_ACK :: nat where "TCP_LAST_ACK = 9"
definition TCP_LISTEN :: nat where "TCP_LISTEN = 10"
definition TCP_CLOSING :: nat where "TCP_CLOSING = 11"
definition TCP_NEW_SYN_RECV :: nat where "TCP_NEW_SYN_RECV = 12"

lemmas tcp_states =
  TCP_ESTABLISHED_def TCP_SYN_SENT_def TCP_SYN_RECV_def TCP_FIN_WAIT1_def
  TCP_FIN_WAIT2_def TCP_TIME_WAIT_def TCP_CLOSE_def TCP_CLOSE_WAIT_def
  TCP_LAST_ACK_def TCP_LISTEN_def TCP_CLOSING_def TCP_NEW_SYN_RECV_def

definition sockStates :: "nat \<rightharpoonup> string" where
  "sockStates = map_of
     [(TCP_ESTABLISHED, ''ESTABLISHED''),
      (TCP_SYN_SENT, ''SYN_SENT''),
      (TCP_SYN_RECV, ''SYN_RECV''),
      (TCP_FIN_WAIT1, ''FIN_WAIT1''),
      (TCP_FIN_WAIT2, ''FIN_WAIT2''),
      (TCP_TIME_WAIT, ''TIME_WAIT''),
      (TCP_CLOSE, ''CLOSE''),
      (TCP_CLOSE_WAIT, ''CLOSE_WAIT''),
      (TCP_LAST_ACK, ''LAST_ACK''),
      (TCP_LISTEN, ''LISTENING''),
      (TCP_CLOSING, ''CLOSING''),
      (TCP_NEW_SYN_RECV, ''NEW_SYN_RECV'')]"

definition sockTypes :: "nat \<rightharpoonup> string" where
  "sockTypes = map_of [(1, ''SOCK_STREAM''), (2, ''SOCK_DGRAM''), (5, ''SOCK_SEQPACKET'')]"

text \<open>Reading a \<open>map[uint]string\<close> at a key it does not hold gives the empty string.\<close>

definition label :: "(nat \<rightharpoonup> string) \<Rightarrow> nat \<Rightarrow> string" where
  "label m k = (case m k of None \<Rightarrow> [] | Some s \<Rightarrow> s)"

text \<open>
  \<open>NetworkEntry\<close>. A \<open>net.IP\<close> is a slice of bytes, and the nil slice of a field that
  was not set is the empty list.
\<close>

record NetworkEntry =
  Proto :: string
  Type :: nat
  TypeString :: string
  Groups :: string
  Path :: string
  State :: nat
  StateString :: string
  SrcIP :: "byte list"
  SrcPort :: nat
  DstIP :: "byte list"
  DstPort :: nat
  UserId :: int
  INode :: int

definition zeroEntry :: NetworkEntry where
  "zeroEntry = \<lparr>Proto = [], Type = 0, TypeString = [], Groups = [], Path = [], State = 0,
     StateString = [], SrcIP = [], SrcPort = 0, DstIP = [], DstPort = 0, UserId = 0,
     INode = 0\<rparr>"

type_synonym NetworkINodes = "int \<rightharpoonup> NetworkEntry"

definition protocols :: "string list" where
  "protocols = [''tcp'', ''tcp6'', ''udp'', ''udp6'', ''unix'', ''netlink'']"

section \<open>The decoders\<close>

definition parseError :: "string \<Rightarrow> int \<Rightarrow> string \<Rightarrow> error" where
  \<comment> \<open>\<open>fmt.Errorf("could not parse netstat line from %s (got %d fields): %s", ...)\<close>\<close>
  "parseError filename n line =
     Errorf (''could not parse netstat line from '' @ filename @ '' (got '' @ fmt_d n
             @ '' fields): '' @ line)"

definition parseIP :: "string \<Rightarrow> string \<Rightarrow> string \<Rightarrow> NetworkEntry result" where
  "parseIP filename line protocol =
     (let fields = Fields line in
      if length fields < 10 then Err (parseError filename (int (length fields)) line)
      else
        let local = Split (fields ! 1) CHR '':'';
            remote = Split (fields ! 2) CHR '':''
        in
        bind (hexToInt (fields ! 3)) (\<lambda>sockState.
        bind (index local 0) (\<lambda>l0. bind (hexToIP l0) (\<lambda>srcIP.
        bind (index local 1) (\<lambda>l1. bind (hexToInt l1) (\<lambda>srcPort.
        bind (index remote 0) (\<lambda>r0. bind (hexToIP r0) (\<lambda>dstIP.
        bind (index remote 1) (\<lambda>r1. bind (hexToInt r1) (\<lambda>dstPort.
        bind (decToInt (fields ! 7)) (\<lambda>userId.
        bind (decToInt (fields ! 9)) (\<lambda>inode.
        Ok (zeroEntry\<lparr>Proto := protocol, SrcIP := srcIP, SrcPort := srcPort,
              DstIP := dstIP, DstPort := dstPort, State := sockState,
              StateString := label sockStates sockState, UserId := userId,
              INode := inode\<rparr>)))))))))))))"

definition parseUnix :: "string \<Rightarrow> string \<Rightarrow> string \<Rightarrow> NetworkEntry result" where
  "parseUnix filename line protocol =
     (let fields = Fields line; num = length fields in
      if num < 7 then Err (parseError filename 7 line)
      else
        bind (hexToInt (fields ! 4)) (\<lambda>sockType.
        bind (hexToInt (fields ! 5)) (\<lambda>sockState.
        let path = (if num > 7 then fields ! 7 else []) in
        bind (decToInt (fields ! 6)) (\<lambda>inode.
        Ok (zeroEntry\<lparr>Proto := protocol, Type := sockType,
              TypeString := label sockTypes sockType, State := sockState,
              StateString := label sockStates sockState, INode := inode,
              Path := path\<rparr>)))))"

definition parseNetlink :: "string \<Rightarrow> string \<Rightarrow> string \<Rightarrow> NetworkEntry result" where
  "parseNetlink filename line protocol =
     (let fields = Fields line; num = length fields in
      if num < 10 then Err (parseError filename 7 line)
      else
        bind (decToInt (fields ! 9)) (\<lambda>inode.
        Ok (zeroEntry\<lparr>Proto := protocol, Groups := fields ! 3, INode := inode\<rparr>)))"

section \<open>The table scanner and the index\<close>

text \<open>
  The proc filesystem is a function from a file name to the lines \<open>bufio.Scanner\<close>
  yields for the file, \<open>None\<close> when \<open>os.Open\<close> fails. \<open>ProcFS\<close>, a variable of the
  package set from the command line, is the argument \<open>procFS\<close>.
\<close>

type_synonym filesystem = "string \<rightharpoonup> string list"

text \<open>
  The lines the scanner yields for the bytes read from a file. \<open>bufio.Scanner\<close> with
  its default split function \<open>ScanLines\<close> yields the text before each newline, less
  one trailing carriage return, and the text after the last newline when there is
  some. Its buffer grows to \<open>MaxScanTokenSize\<close>, 64 * 1024 bytes, and must hold a line
  with its newline: at a line of that many bytes or more \<open>Scan\<close> returns false, as it
  does at the end of the file and when a read fails. The loop of
  \<open>parseNetworkForProtocol\<close> never looks at \<open>scanner.Err()\<close>, so for it the file
  ends there.
\<close>

definition MaxScanTokenSize :: nat where
  "MaxScanTokenSize = 64 * 1024"

definition dropCR :: "string \<Rightarrow> string" where
  "dropCR l = (if l \<noteq> [] \<and> last l = CHR 0x0D then butlast l else l)"

fun scanFrom :: "string \<Rightarrow> string \<Rightarrow> string list" where
  "scanFrom cur [] = (if cur = [] \<or> MaxScanTokenSize \<le> length cur then [] else [dropCR cur])"
| "scanFrom cur (c # cs) =
     (if c = CHR 0x0A then
        (if MaxScanTokenSize \<le> length cur then [] else dropCR cur # scanFrom [] cs)
      else scanFrom (cur @ [c]) cs)"

definition scannerLines :: "string \<Rightarrow> string list" where
  "scannerLines content = scanFrom [] content"

text \<open>The choice of the decoder in the body of the loop, on the name of the family.\<close>

definition decode :: "string \<Rightarrow> string \<Rightarrow> string \<Rightarrow> NetworkEntry result" where
  "decode filename line proto =
     (if proto = ''unix'' then parseUnix filename line proto
      else if proto = ''netlink'' then parseNetlink filename line proto
      else parseIP filename line proto)"

text \<open>
  The loop over the lines, \<open>lineno\<close> counting them from 0: the first one is skipped, and
  an error a decoder returns is the value of a panic.
\<close>

fun scanLines :: "string \<Rightarrow> string \<Rightarrow> nat \<Rightarrow> string list \<Rightarrow> NetworkEntry list
    \<Rightarrow> NetworkEntry list result" where
  "scanLines filename proto lineno [] entries = Ok entries"
| "scanLines filename proto lineno (text # rest) entries =
     (if lineno = 0 then scanLines filename proto (lineno + 1) rest entries
      else
        (case decode filename (Trim text) proto of
           Err e \<Rightarrow> Panic (PanicError e)
         | Panic p \<Rightarrow> Panic p
         | Ok entry \<Rightarrow> scanLines filename proto (lineno + 1) rest (entries @ [entry])))"

definition parseNetworkForProtocol :: "filesystem \<Rightarrow> string \<Rightarrow> string
    \<Rightarrow> NetworkEntry list result" where
  "parseNetworkForProtocol fs procFS proto =
     (let filename = procFS @ ''/net/'' @ proto in
      case fs filename of
        None \<Rightarrow> Err (OpenError filename)
      | Some lines \<Rightarrow> scanLines filename proto 0 lines [])"

text \<open>The inner loop of \<open>parseNetworkInodes\<close>: \<open>byInode[entry.INode] = entry\<close>.\<close>

fun store :: "NetworkINodes \<Rightarrow> NetworkEntry list \<Rightarrow> NetworkINodes" where
  "store byInode [] = byInode"
| "store byInode (entry # entries) = store (byInode(INode entry \<mapsto> entry)) entries"

text \<open>The outer loop, over the protocols that are left.\<close>

fun inodesOf :: "filesystem \<Rightarrow> string \<Rightarrow> string list \<Rightarrow> NetworkINodes
    \<Rightarrow> NetworkINodes result" where
  "inodesOf fs procFS [] byInode = Ok byInode"
| "inodesOf fs procFS (proto # rest) byInode =
     (case parseNetworkForProtocol fs procFS proto of
        Err e \<Rightarrow> Err e
      | Panic p \<Rightarrow> Panic p
      | Ok entries \<Rightarrow> inodesOf fs procFS rest (store byInode entries))"

definition parseNetworkInodes :: "filesystem \<Rightarrow> string \<Rightarrow> NetworkINodes result" where
  "parseNetworkInodes fs procFS = inodesOf fs procFS protocols Map.empty"

section \<open>The search of the target process\<close>

text \<open>
  A process as \<open>procfs.AllProcs\<close> lists it: its identifier, the name \<open>Comm\<close> reads
  (empty when the read fails) and the arguments \<open>CmdLine\<close> reads.
\<close>

record Proc =
  PID :: int
  Comm :: string
  CmdLine :: "string list"

definition zeroProc :: Proc where
  "zeroProc = \<lparr>PID = 0, Comm = [], CmdLine = []\<rparr>"

text \<open>\<open>strings.Index\<close>: where the first instance of \<open>substr\<close> starts, or -1.\<close>

fun indexFrom :: "nat \<Rightarrow> string \<Rightarrow> string \<Rightarrow> int" where
  "indexFrom i [] substr = (if substr = [] then int i else - 1)"
| "indexFrom i (c # cs) substr =
     (if prefix substr (c # cs) then int i else indexFrom (i + 1) cs substr)"

definition Index :: "string \<Rightarrow> string \<Rightarrow> int" where
  "Index s substr = indexFrom 0 s substr"

fun Join :: "string list \<Rightarrow> string \<Rightarrow> string" where
  "Join [] sep = []"
| "Join [x] sep = x"
| "Join (x # y # xs) sep = x @ sep @ Join (y # xs) sep"

text \<open>
  How \<open>searchTarget\<close> ends: it returns, and \<open>host.TargetPID\<close> holds the value, or the
  program exits with a status, or it panics. The strings are what was printed.
\<close>

datatype outcome =
    Returns int "string list"
  | Exits int "string list"
  | Panics error

text \<open>
  The loop over the processes. The map \<open>matches\<close> is a list of pairs with one pair for
  each key, so that its length is what \<open>len\<close> gives.
\<close>

fun matchLoop :: "string \<Rightarrow> Proc list \<Rightarrow> int list \<Rightarrow> (int \<times> Proc) list
    \<Rightarrow> int list \<times> (int \<times> Proc) list" where
  "matchLoop targetName [] matchPIDs matches = (matchPIDs, matches)"
| "matchLoop targetName (proc # procs) matchPIDs matches =
     (if Comm proc \<noteq> [] \<and> Index (Comm proc) targetName \<noteq> - 1
      then matchLoop targetName procs (matchPIDs @ [PID proc])
             (AList.update (PID proc) proc matches)
      else matchLoop targetName procs matchPIDs matches)"

definition reportLine :: "(int \<times> Proc) list \<Rightarrow> int \<Rightarrow> string" where
  \<comment> \<open>\<open>fmt.Printf("[%d] (%s) %s\n", pid, comm, strings.Join(cmdline, " "))\<close>\<close>
  "reportLine matches pid =
     (let proc = (case map_of matches pid of None \<Rightarrow> zeroProc | Some p \<Rightarrow> p) in
      ''['' @ fmt_d pid @ ''] ('' @ Comm proc @ '') '' @ Join (CmdLine proc) '' ''
        @ [CHR 0x0A])"

definition defaultTarget :: "int \<Rightarrow> int \<Rightarrow> outcome" where
  \<comment> \<open>the end of the function: the process itself when no target was given\<close>
  "defaultTarget targetPID selfPID = Returns (if targetPID \<le> 0 then selfPID else targetPID) []"

text \<open>
  \<open>allProcs\<close> is what \<open>procfs.AllProcs\<close> returns, \<open>targetPID\<close> the value of
  \<open>host.TargetPID\<close> at the call and \<open>selfPID\<close> what \<open>os.Getpid\<close> gives.
\<close>

definition searchTarget :: "string \<Rightarrow> error + Proc list \<Rightarrow> int \<Rightarrow> int \<Rightarrow> outcome" where
  "searchTarget targetName allProcs targetPID selfPID =
     (if targetName \<noteq> [] then
        (case allProcs of
           Inl err \<Rightarrow> Panics err
         | Inr procs \<Rightarrow>
             (case matchLoop targetName procs [] [] of (matchPIDs, matches) \<Rightarrow>
                let num = length matches in
                if num = 0 then
                  Exits 1 [''no matches for '' @ [CHR 0x27] @ targetName @ [CHR 0x27, CHR 0x0A]]
                else if num > 1 then
                  Exits 0 ((''multiple matches for '' @ [CHR 0x27] @ targetName
                              @ [CHR 0x27, CHR '':'', CHR 0x0A])
                           # map (reportLine matches) (sort matchPIDs))
                else
                  (case matches of
                     (pid, proc) # others \<Rightarrow> Returns pid []
                   | [] \<Rightarrow> defaultTarget targetPID selfPID)))
      else defaultTarget targetPID selfPID)"

section \<open>Notions of the statements and examples\<close>

text \<open>
  The number of fields below which the decoder of a family returns its error: 7 in
  \<open>parseUnix\<close>, 10 in \<open>parseNetlink\<close> and in \<open>parseIP\<close>, which decodes every other
  family.
\<close>

definition minFields :: "string \<Rightarrow> nat" where
  "minFields proto = (if proto = ''unix'' then 7 else 10)"

text \<open>The number the message of the family's decoder gives for a line of \<open>n\<close> fields.\<close>

definition reportedFields :: "string \<Rightarrow> nat \<Rightarrow> int" where
  "reportedFields proto n = (if proto = ''unix'' \<or> proto = ''netlink'' then 7 else int n)"

text \<open>
  A proc filesystem to run the scanner on: the tables hold their header line and the
  lines the comments of \<open>network.go\<close> give, and the tables of the other families
  hold the header alone.
\<close>

text \<open>The bytes of the file whose lines, each ended by a newline, are the given ones.\<close>

definition fileOf :: "string list \<Rightarrow> string" where
  "fileOf ls = concat (map (\<lambda>l. l @ [CHR 0x0A]) ls)"

definition tcpHeader :: string where
  "tcpHeader = ''  sl  local_address rem_address   st tx_queue rx_queue tr tm->when retrnsmt   uid  timeout inode''"

definition unixHeader :: string where
  "unixHeader = ''Num       RefCount Protocol Flags    Type St Inode Path''"

definition netlinkHeader :: string where
  "netlinkHeader = ''sk               Eth Pid        Groups   Rmem     Wmem     Dump     Locks     Drops     Inode''"

definition exampleFS :: filesystem where
  "exampleFS = map_of
     [(''/proc/net/tcp'',
        [tcpHeader,
         ''   0: 0100007F:13AD 00000000:0000 0A 00000000:00000000 00:00000000 00000000  1000        0 18083222'']),
      (''/proc/net/tcp6'', [tcpHeader]),
      (''/proc/net/udp'', [tcpHeader]),
      (''/proc/net/udp6'', [tcpHeader]),
      (''/proc/net/unix'',
        [unixHeader,
         ''0000000000000000: 00000002 00000000 00010000 0001 01 28271 /run/user/1000/gnupg/S.dirmngr'']),
      (''/proc/net/netlink'',
        [netlinkHeader,
         ''0000000000000000 0   2014       00000110 0        0        0        2         0         27854''])]"

definition tcpEntry :: NetworkEntry where
  "tcpEntry = \<lparr>Proto = ''tcp'', Type = 0, TypeString = [], Groups = [], Path = [], State = 10,
     StateString = ''LISTENING'', SrcIP = [127, 0, 0, 1], SrcPort = 5037,
     DstIP = [0, 0, 0, 0], DstPort = 0, UserId = 1000, INode = 18083222\<rparr>"

definition unixEntry :: NetworkEntry where
  "unixEntry = \<lparr>Proto = ''unix'', Type = 1, TypeString = ''SOCK_STREAM'', Groups = [],
     Path = ''/run/user/1000/gnupg/S.dirmngr'', State = 1, StateString = ''ESTABLISHED'',
     SrcIP = [], SrcPort = 0, DstIP = [], DstPort = 0, UserId = 0, INode = 28271\<rparr>"

definition netlinkEntry :: NetworkEntry where
  "netlinkEntry = \<lparr>Proto = ''netlink'', Type = 0, TypeString = [], Groups = ''00000110'',
     Path = [], State = 0, StateString = [], SrcIP = [], SrcPort = 0, DstIP = [],
     DstPort = 0, UserId = 0, INode = 27854\<rparr>"

text \<open>The processes whose name holds the search string, in the order of the listing.\<close>

definition matching :: "string \<Rightarrow> Proc list \<Rightarrow> Proc list" where
  "matching targetName procs = filter (\<lambda>p. sublist targetName (Comm p)) procs"

definition sshd :: Proc where
  "sshd = \<lparr>PID = 30, Comm = ''sshd'', CmdLine = [''/usr/sbin/sshd'', ''-D'']\<rparr>"

definition agent :: Proc where
  "agent = \<lparr>PID = 7, Comm = ''ssh-agent'', CmdLine = [''ssh-agent'']\<rparr>"

definition bash :: Proc where
  "bash = \<lparr>PID = 9, Comm = ''bash'', CmdLine = [''bash'']\<rparr>"

section \<open>Properties of the library functions\<close>

declare spaceWidth.simps(2) [simp del]

lemma bind_Ok_iff: "bind r f = Ok y \<longleftrightarrow> (\<exists>x. r = Ok x \<and> f x = Ok y)"
  by (cases r) simp_all

lemma bind_Err_iff: "bind r f = Err e \<longleftrightarrow> r = Err e \<or> (\<exists>x. r = Ok x \<and> f x = Err e)"
  by (cases r) auto

lemma hexToInt_not_Err: "hexToInt h \<noteq> Err e"
  by (simp add: hexToInt_def split: option.splits)

lemma hexToIP_not_Err: "hexToIP h \<noteq> Err e"
  by (simp add: hexToIP_def split: option.splits)

lemma decToInt_not_Err: "decToInt h \<noteq> Err e"
  by (simp add: decToInt_def split: option.splits)

lemma index_not_Err: "index xs i \<noteq> Err e"
  by (simp add: index_def)

lemma spaceWidth_le: "spaceWidth s \<le> length s"
proof (cases s)
  case Nil
  then show ?thesis by simp
next
  case (Cons c cs)
  have two: "take 2 cs = [a, b] \<Longrightarrow> 2 \<le> length cs" for a b
    by (cases cs; cases "tl cs") auto
  have one: "take 1 cs = [a] \<Longrightarrow> 1 \<le> length cs" for a
    by (cases cs) auto
  have gp: "take 1 cs = [a] \<Longrightarrow> list_ex P (take 1 (drop 1 cs)) \<Longrightarrow> 2 \<le> length cs" for a P
    by (cases cs; cases "tl cs") auto
  show ?thesis
    unfolding Cons spaceWidth.simps
    using two [of "CHR 0x9A" "CHR 0x80"] two [of "CHR 0x81" "CHR 0x9F"] two [of "CHR 0x80" "CHR 0x80"]
      one [of "CHR 0x85"] one [of "CHR 0xA0"] gp [of "CHR 0x80" generalPunctuationSpace]
    by (simp split: if_splits) linarith
qed

lemma asciiSpace_not_tail:
  assumes "asciiSpace c"
  shows "c \<noteq> CHR 0x85" "c \<noteq> CHR 0xA0" "c \<noteq> CHR 0x9A" "c \<noteq> CHR 0x80" "c \<noteq> CHR 0x81"
    "c \<noteq> CHR 0x9F" "\<not> generalPunctuationSpace c"
  using assms by (auto simp: asciiSpace_def generalPunctuationSpace_def)

lemma spaceWidth_append_space:
  assumes "asciiSpace c"
  shows "spaceWidth (x # xs @ c # b) = spaceWidth (x # xs)"
proof -
  note ns = asciiSpace_not_tail [OF assms]
  consider "xs = []" | y where "xs = [y]" | y z ys where "xs = y # z # ys"
    by (cases xs; cases "tl xs") auto
  then show ?thesis
  proof cases
    case 1
    then show ?thesis using ns by (auto simp: spaceWidth.simps(2))
  next
    case 2
    then show ?thesis using ns by (auto simp: spaceWidth.simps(2))
  next
    case 3
    then show ?thesis by (auto simp: spaceWidth.simps(2))
  qed
qed

lemma fieldsFrom_append_space:
  assumes "asciiSpace c"
  shows "fieldsFrom cur (a @ c # b) = fieldsFrom cur a @ fieldsFrom [] b"
proof (induction cur a rule: fieldsFrom.induct)
  case (1 cur)
  from assms show ?case by (simp add: spaceWidth.simps(2))
next
  case (2 cur x xs)
  have w: "spaceWidth (x # xs @ c # b) = spaceWidth (x # xs)"
    by (rule spaceWidth_append_space [OF assms])
  show ?case
  proof (cases "spaceWidth (x # xs) = 0")
    case True
    with 2 w show ?thesis by simp
  next
    case False
    have le: "spaceWidth (x # xs) \<le> length (x # xs)" by (rule spaceWidth_le)
    have "drop (spaceWidth (x # xs)) ((x # xs) @ c # b) = drop (spaceWidth (x # xs)) (x # xs) @ c # b"
      using le drop_append [of "spaceWidth (x # xs)" "x # xs" "c # b"]
      by simp
    with 2(2) [OF False] False w show ?thesis by simp
  qed
qed

lemma Fields_append_space: "asciiSpace c \<Longrightarrow> Fields (a @ c # b) = Fields a @ Fields b"
  by (simp add: Fields_def fieldsFrom_append_space)

lemma Fields_Nil: "Fields [] = []"
  by (simp add: Fields_def flush_def)

lemma Fields_Cons_space: "asciiSpace c \<Longrightarrow> Fields (c # s) = Fields s"
  using Fields_append_space [of c "[]" s] by (simp add: Fields_Nil)

lemma Fields_snoc_space: "asciiSpace c \<Longrightarrow> Fields (s @ [c]) = Fields s"
  using Fields_append_space [of c s "[]"] by (simp add: Fields_Nil)

lemma cutset_asciiSpace: "cutset c \<Longrightarrow> asciiSpace c"
  by (auto simp: cutset_def asciiSpace_def)

lemma Fields_dropWhile: "Fields (dropWhile cutset s) = Fields s"
  by (induction s) (simp_all add: Fields_Cons_space cutset_asciiSpace)

lemma Fields_rev_dropWhile: "Fields (rev (dropWhile cutset (rev s))) = Fields s"
proof (induction s rule: rev_induct)
  case Nil
  show ?case by simp
next
  case (snoc x xs)
  then show ?case by (simp add: Fields_snoc_space cutset_asciiSpace)
qed

lemma Fields_Trim: "Fields (Trim s) = Fields s"
  by (simp add: Trim_def Fields_rev_dropWhile Fields_dropWhile)

lemma splitFrom_no_sep: "sep \<notin> set s \<Longrightarrow> splitFrom sep cur s = [cur @ s]"
  by (induction s arbitrary: cur) auto

lemma Split_no_sep: "sep \<notin> set s \<Longrightarrow> Split s sep = [s]"
  by (simp add: Split_def splitFrom_no_sep)

lemma splitFrom_length: "length (splitFrom sep cur s) = Suc (count_list s sep)"
  by (induction s arbitrary: cur) auto

lemma bind_Panic_iff:
  "bind r f = Panic p \<longleftrightarrow> r = Panic p \<or> (\<exists>x. r = Ok x \<and> f x = Panic p)"
  by (cases r) auto

section \<open>Evaluation of the decoders on given lines\<close>

lemmas eval_fields =
  Fields_def spaceWidth.simps(2) asciiSpace_def generalPunctuationSpace_def flush_def

lemmas eval_conv =
  hexToInt_def hexToIP_def decToInt_def hexDigit_def decDigit_def Split_def index_def

lemmas eval_entry = label_def sockStates_def sockTypes_def tcp_states zeroEntry_def

lemma fmt_d_7: "fmt_d 7 = ''7''"
  by (simp add: fmt_d_def natDigits.simps digitChar_def)

lemma Split_length: "length (Split s sep) = Suc (count_list s sep)"
  by (simp add: Split_def splitFrom_length)

lemma Split_sep: "sep \<in> set s \<Longrightarrow> \<exists>l0 l1 ls. Split s sep = l0 # l1 # ls"
proof -
  assume "sep \<in> set s"
  then have "0 < count_list s sep" using count_list_0_iff [of s sep] by auto
  then have "2 \<le> length (Split s sep)" by (simp add: Split_length)
  then show ?thesis
    by (cases "Split s sep"; cases "tl (Split s sep)") auto
qed

lemma helper_cases:
  "(\<exists>v. hexToInt h = Ok v) \<or> (\<exists>p. hexToInt h = Panic p)"
  "(\<exists>b. hexToIP h = Ok b) \<or> (\<exists>p. hexToIP h = Panic p)"
  "(\<exists>i. decToInt h = Ok i) \<or> (\<exists>p. decToInt h = Panic p)"
  by (auto simp: hexToInt_def hexToIP_def decToInt_def split: option.splits)

lemma Fields_abc: "Fields ''a b c'' = [''a'', ''b'', ''c'']"
  by (simp add: eval_fields)

lemma Fields_nine:
  "Fields ''a 0 1 2 3 4 5 6 7'' = [''a'', ''0'', ''1'', ''2'', ''3'', ''4'', ''5'', ''6'', ''7'']"
  by (simp add: eval_fields)

section \<open>The message of a malformed line\<close>

text \<open>
  Claim C10. A decoder returns an error exactly when the line has fewer fields than its
  minimum, and the error is the formatted message with the file name and the line it
  was given. The unix-domain and the netlink decoder write the count as the literal 7
  whatever the number of fields of the line; the IP decoder writes the number of
  fields of the line.
\<close>

theorem malformed_line_message:
  "(parseUnix filename line proto = Err e \<longleftrightarrow>
      length (Fields line) < 7 \<and>
      e = Errorf (''could not parse netstat line from '' @ filename @ '' (got 7 fields): '' @ line))
   \<and> (parseNetlink filename line proto = Err e \<longleftrightarrow>
      length (Fields line) < 10 \<and>
      e = Errorf (''could not parse netstat line from '' @ filename @ '' (got 7 fields): '' @ line))
   \<and> (parseIP filename line proto = Err e \<longleftrightarrow>
      length (Fields line) < 10 \<and>
      e = Errorf (''could not parse netstat line from '' @ filename @ '' (got ''
             @ fmt_d (int (length (Fields line))) @ '' fields): '' @ line))"
proof (intro conjI)
  show "parseUnix filename line proto = Err e \<longleftrightarrow>
      length (Fields line) < 7 \<and>
      e = Errorf (''could not parse netstat line from '' @ filename @ '' (got 7 fields): '' @ line)"
    by (auto simp: parseUnix_def Let_def parseError_def fmt_d_7 bind_Err_iff hexToInt_not_Err
        decToInt_not_Err)
  show "parseNetlink filename line proto = Err e \<longleftrightarrow>
      length (Fields line) < 10 \<and>
      e = Errorf (''could not parse netstat line from '' @ filename @ '' (got 7 fields): '' @ line)"
    by (auto simp: parseNetlink_def Let_def parseError_def fmt_d_7 bind_Err_iff decToInt_not_Err)
  show "parseIP filename line proto = Err e \<longleftrightarrow>
      length (Fields line) < 10 \<and>
      e = Errorf (''could not parse netstat line from '' @ filename @ '' (got ''
             @ fmt_d (int (length (Fields line))) @ '' fields): '' @ line)"
    by (auto simp: parseIP_def Let_def parseError_def bind_Err_iff hexToInt_not_Err
        hexToIP_not_Err decToInt_not_Err index_not_Err)
qed

theorem malformed_line_message_witness:
  "parseUnix ''/proc/net/unix'' ''a b c'' ''unix'' =
     Err (Errorf ''could not parse netstat line from /proc/net/unix (got 7 fields): a b c'')
   \<and> parseNetlink ''/proc/net/netlink'' ''a 0 1 2 3 4 5 6 7'' ''netlink'' =
     Err (Errorf
       ''could not parse netstat line from /proc/net/netlink (got 7 fields): a 0 1 2 3 4 5 6 7'')
   \<and> parseIP ''/proc/net/tcp'' ''a b c'' ''tcp'' =
     Err (Errorf ''could not parse netstat line from /proc/net/tcp (got 3 fields): a b c'')"
  using malformed_line_message [of "''/proc/net/unix''" "''a b c''" "''unix''"
      "Errorf ''could not parse netstat line from /proc/net/unix (got 7 fields): a b c''"]
    malformed_line_message [of "''/proc/net/netlink''" "''a 0 1 2 3 4 5 6 7''" "''netlink''"
      "Errorf
       ''could not parse netstat line from /proc/net/netlink (got 7 fields): a 0 1 2 3 4 5 6 7''"]
    malformed_line_message [of "''/proc/net/tcp''" "''a b c''" "''tcp''"
      "Errorf ''could not parse netstat line from /proc/net/tcp (got 3 fields): a b c''"]
  by (simp add: Fields_abc Fields_nine fmt_d_def natDigits.simps digitChar_def)

lemma parseIP_Ok:
  assumes "10 \<le> length (Fields line)"
    and "Split (Fields line ! 1) CHR '':'' = l0 # l1 # ls"
    and "Split (Fields line ! 2) CHR '':'' = r0 # r1 # rs"
    and "hexToInt (Fields line ! 3) = Ok st"
    and "hexToIP l0 = Ok sip" and "hexToInt l1 = Ok sport"
    and "hexToIP r0 = Ok dip" and "hexToInt r1 = Ok dport"
    and "decToInt (Fields line ! 7) = Ok uid" and "decToInt (Fields line ! 9) = Ok ino"
  shows "parseIP filename line proto =
    Ok \<lparr>Proto = proto, Type = 0, TypeString = [], Groups = [], Path = [], State = st,
        StateString = label sockStates st, SrcIP = sip, SrcPort = sport, DstIP = dip,
        DstPort = dport, UserId = uid, INode = ino\<rparr>"
  using assms by (simp add: parseIP_def Let_def index_def zeroEntry_def)

lemma parseUnix_Ok:
  assumes "7 \<le> length (Fields line)"
    and "hexToInt (Fields line ! 4) = Ok ty" and "hexToInt (Fields line ! 5) = Ok st"
    and "decToInt (Fields line ! 6) = Ok ino"
  shows "parseUnix filename line proto =
    Ok \<lparr>Proto = proto, Type = ty, TypeString = label sockTypes ty, Groups = [],
        Path = (if 7 < length (Fields line) then Fields line ! 7 else []), State = st,
        StateString = label sockStates st, SrcIP = [], SrcPort = 0, DstIP = [],
        DstPort = 0, UserId = 0, INode = ino\<rparr>"
  using assms by (simp add: parseUnix_def Let_def zeroEntry_def)

lemma parseUnix_Ok_Path:
  assumes "parseUnix filename line proto = Ok e"
  shows "Path e = (if 7 < length (Fields line) then Fields line ! 7 else [])"
  using assms
  by (auto simp: parseUnix_def Let_def zeroEntry_def bind_Ok_iff split: if_splits)

section \<open>A local or remote column with no colon\<close>

lemma parseIP_no_colon_local:
  assumes "10 \<le> length (Fields line)" and "CHR '':'' \<notin> set (Fields line ! 1)"
  shows "\<exists>p. parseIP filename line proto = Panic p"
    and "hexToInt (Fields line ! 3) = Ok st \<Longrightarrow> hexToIP (Fields line ! 1) = Ok ip \<Longrightarrow>
      parseIP filename line proto = Panic (IndexOutOfRange 1 1)"
proof -
  have l: "Split (Fields line ! 1) CHR '':'' = [Fields line ! 1]"
    using assms(2) by (rule Split_no_sep)
  show "\<exists>p. parseIP filename line proto = Panic p"
    using assms(1) l helper_cases(1) [of "Fields line ! 3"] helper_cases(2) [of "Fields line ! 1"]
    by (auto simp: parseIP_def Let_def index_def)
  show "hexToInt (Fields line ! 3) = Ok st \<Longrightarrow> hexToIP (Fields line ! 1) = Ok ip \<Longrightarrow>
      parseIP filename line proto = Panic (IndexOutOfRange 1 1)"
    using assms(1) l by (simp add: parseIP_def Let_def index_def)
qed

lemma parseIP_no_colon_remote:
  assumes "10 \<le> length (Fields line)" and "CHR '':'' \<in> set (Fields line ! 1)"
    and "CHR '':'' \<notin> set (Fields line ! 2)"
  shows "\<exists>p. parseIP filename line proto = Panic p"
    and "hexToInt (Fields line ! 3) = Ok st \<Longrightarrow>
      hexToIP (Split (Fields line ! 1) CHR '':'' ! 0) = Ok ip \<Longrightarrow>
      hexToInt (Split (Fields line ! 1) CHR '':'' ! 1) = Ok port \<Longrightarrow>
      hexToIP (Fields line ! 2) = Ok ip' \<Longrightarrow>
      parseIP filename line proto = Panic (IndexOutOfRange 1 1)"
proof -
  obtain l0 l1 ls where l: "Split (Fields line ! 1) CHR '':'' = l0 # l1 # ls"
    using Split_sep [OF assms(2)] by blast
  have r: "Split (Fields line ! 2) CHR '':'' = [Fields line ! 2]"
    using assms(3) by (rule Split_no_sep)
  show "\<exists>p. parseIP filename line proto = Panic p"
    using assms(1) l r helper_cases(1) [of "Fields line ! 3"] helper_cases(2) [of l0]
      helper_cases(1) [of l1] helper_cases(2) [of "Fields line ! 2"]
    by (auto simp: parseIP_def Let_def index_def)
  show "hexToInt (Fields line ! 3) = Ok st \<Longrightarrow>
      hexToIP (Split (Fields line ! 1) CHR '':'' ! 0) = Ok ip \<Longrightarrow>
      hexToInt (Split (Fields line ! 1) CHR '':'' ! 1) = Ok port \<Longrightarrow>
      hexToIP (Fields line ! 2) = Ok ip' \<Longrightarrow>
      parseIP filename line proto = Panic (IndexOutOfRange 1 1)"
    using assms(1) l r by (simp add: parseIP_def Let_def index_def)
qed

text \<open>
  Claim C9. A line of an IP table with at least 10 fields whose second or third field
  holds no colon makes \<open>parseIP\<close> panic: it never returns the error of a malformed
  line. The panic is the index 1 out of range of the one-element slice
  \<open>strings.Split\<close> gave, whenever the conversions evaluated before that index
  succeed.
\<close>

theorem parseIP_missing_colon_panics:
  assumes "10 \<le> length (Fields line)"
    and "CHR '':'' \<notin> set (Fields line ! 1) \<or> CHR '':'' \<notin> set (Fields line ! 2)"
  shows "(\<exists>p. parseIP filename line proto = Panic p)
    \<and> (CHR '':'' \<notin> set (Fields line ! 1) \<and> hexToInt (Fields line ! 3) = Ok st
          \<and> hexToIP (Fields line ! 1) = Ok ip
        \<longrightarrow> parseIP filename line proto = Panic (IndexOutOfRange 1 1))
    \<and> (CHR '':'' \<in> set (Fields line ! 1) \<and> hexToInt (Fields line ! 3) = Ok st
          \<and> hexToIP (Split (Fields line ! 1) CHR '':'' ! 0) = Ok ip
          \<and> hexToInt (Split (Fields line ! 1) CHR '':'' ! 1) = Ok port
          \<and> hexToIP (Fields line ! 2) = Ok ip'
        \<longrightarrow> parseIP filename line proto = Panic (IndexOutOfRange 1 1))"
proof (intro conjI impI)
  show "\<exists>p. parseIP filename line proto = Panic p"
    using assms parseIP_no_colon_local(1) parseIP_no_colon_remote(1) by blast
next
  assume "CHR '':'' \<notin> set (Fields line ! 1) \<and> hexToInt (Fields line ! 3) = Ok st
          \<and> hexToIP (Fields line ! 1) = Ok ip"
  then show "parseIP filename line proto = Panic (IndexOutOfRange 1 1)"
    using assms(1) parseIP_no_colon_local(2) by blast
next
  assume a: "CHR '':'' \<in> set (Fields line ! 1) \<and> hexToInt (Fields line ! 3) = Ok st
          \<and> hexToIP (Split (Fields line ! 1) CHR '':'' ! 0) = Ok ip
          \<and> hexToInt (Split (Fields line ! 1) CHR '':'' ! 1) = Ok port
          \<and> hexToIP (Fields line ! 2) = Ok ip'"
  with assms(2) have "CHR '':'' \<notin> set (Fields line ! 2)" by blast
  with a show "parseIP filename line proto = Panic (IndexOutOfRange 1 1)"
    using assms(1) parseIP_no_colon_remote(2) by blast
qed

lemma Fields_no_colon_line:
  "Fields ''0: 0100007F 00000000:0000 0A 0:0 0:0 0 1000 0 18083222'' =
     [''0:'', ''0100007F'', ''00000000:0000'', ''0A'', ''0:0'', ''0:0'', ''0'', ''1000'', ''0'',
      ''18083222'']"
  by (simp add: eval_fields)

theorem parseIP_missing_colon_panics_witness:
  "10 \<le> length (Fields ''0: 0100007F 00000000:0000 0A 0:0 0:0 0 1000 0 18083222'')
   \<and> CHR '':'' \<notin> set (Fields ''0: 0100007F 00000000:0000 0A 0:0 0:0 0 1000 0 18083222'' ! 1)
   \<and> parseIP ''/proc/net/tcp'' ''0: 0100007F 00000000:0000 0A 0:0 0:0 0 1000 0 18083222'' ''tcp''
     = Panic (IndexOutOfRange 1 1)"
  using parseIP_missing_colon_panics [where filename = "''/proc/net/tcp''" and proto = "''tcp''"
      and line = "''0: 0100007F 00000000:0000 0A 0:0 0:0 0 1000 0 18083222''"
      and st = 10 and ip = "[127, 0, 0, 1]"]
  by (simp add: Fields_no_colon_line eval_conv)

section \<open>The line of a listening socket\<close>

text \<open>
  Claim C1, amended. The columns \<open>0100007F:13AD\<close>, \<open>00000000:0000\<close> and \<open>0A\<close> are
  the second, third and fourth fields of a line of the table: the slot number comes
  first. A line of the stream-v4 table with any first field, these three next, at
  least 10 fields in all and a decimal number in the eighth and in the tenth decodes
  to the source 127.0.0.1 port 5037, the destination 0.0.0.0 port 0, the state 10 and
  the label \<open>LISTENING\<close> that the table gives to \<open>TCP_LISTEN\<close>.
\<close>

theorem parseIP_listening_line:
  assumes "Fields line = sl # ''0100007F:13AD'' # ''00000000:0000'' # ''0A'' # rest"
    and "6 \<le> length rest"
    and "decToInt (rest ! 3) = Ok uid" and "decToInt (rest ! 5) = Ok ino"
  shows "parseIP filename line ''tcp'' =
    Ok \<lparr>Proto = ''tcp'', Type = 0, TypeString = [], Groups = [], Path = [], State = 10,
        StateString = ''LISTENING'', SrcIP = [127, 0, 0, 1], SrcPort = 5037,
        DstIP = [0, 0, 0, 0], DstPort = 0, UserId = uid, INode = ino\<rparr>"
proof -
  have len: "10 \<le> length (Fields line)" using assms(1,2) by simp
  have f: "Fields line ! 1 = ''0100007F:13AD''" "Fields line ! 2 = ''00000000:0000''"
    "Fields line ! 3 = ''0A''" "Fields line ! 7 = rest ! 3" "Fields line ! 9 = rest ! 5"
    using assms(1) by simp_all
  have l: "Split ''0100007F:13AD'' CHR '':'' = [''0100007F'', ''13AD'']"
    and r: "Split ''00000000:0000'' CHR '':'' = [''00000000'', ''0000'']"
    by (simp_all add: Split_def)
  have c: "hexToInt ''0A'' = Ok 10" "hexToIP ''0100007F'' = Ok [127, 0, 0, 1]"
    "hexToInt ''13AD'' = Ok 5037" "hexToIP ''00000000'' = Ok [0, 0, 0, 0]"
    "hexToInt ''0000'' = Ok 0"
    by (simp_all add: hexToInt_def hexToIP_def hexDigit_def)
  have s: "label sockStates 10 = ''LISTENING''"
    by (simp add: eval_entry)
  show ?thesis
    using parseIP_Ok [of line "''0100007F''" "''13AD''" "[]" "''00000000''" "''0000''" "[]"
        10 "[127, 0, 0, 1]" 5037 "[0, 0, 0, 0]" 0 uid ino filename "''tcp''"]
      len f l r c s assms(3,4)
    by simp
qed

lemma Fields_sample_tcp:
  "Fields ''0:  0100007F:13AD 00000000:0000 0A 00000000:00000000 00:00000000 00000000  1000        0 18083222''
   = [''0:'', ''0100007F:13AD'', ''00000000:0000'', ''0A'', ''00000000:00000000'',
      ''00:00000000'', ''00000000'', ''1000'', ''0'', ''18083222'']"
  by (simp add: eval_fields)

theorem parseIP_listening_line_witness:
  "parseIP ''/proc/net/tcp''
     ''0:  0100007F:13AD 00000000:0000 0A 00000000:00000000 00:00000000 00000000  1000        0 18083222''
     ''tcp'' =
    Ok \<lparr>Proto = ''tcp'', Type = 0, TypeString = [], Groups = [], Path = [], State = 10,
        StateString = ''LISTENING'', SrcIP = [127, 0, 0, 1], SrcPort = 5037,
        DstIP = [0, 0, 0, 0], DstPort = 0, UserId = 1000, INode = 18083222\<rparr>"
  using parseIP_listening_line [where filename = "''/proc/net/tcp''" and sl = "''0:''"
      and rest = "[''00000000:00000000'', ''00:00000000'', ''00000000'', ''1000'', ''0'', ''18083222'']"
      and uid = 1000 and ino = 18083222
      and line = "''0:  0100007F:13AD 00000000:0000 0A 00000000:00000000 00:00000000 00000000  1000        0 18083222''"]
  by (simp add: Fields_sample_tcp decToInt_def decDigit_def)

lemma Fields_literal_tcp:
  "Fields ''0100007F:13AD 00000000:0000 0A 00000000:00000000 00:00000000 00000000 1000 0 18083222 1 0000000000000000 100 0 0 10 0''
   = [''0100007F:13AD'', ''00000000:0000'', ''0A'', ''00000000:00000000'',
      ''00:00000000'', ''00000000'', ''1000'', ''0'', ''18083222'', ''1'', ''0000000000000000'',
      ''100'', ''0'', ''0'', ''10'', ''0'']"
  by (simp add: eval_fields)

text \<open>
  The claim as it is written fails: a line that begins with \<open>0100007F:13AD\<close> has the
  columns one field too early and does not decode, and the line of the kernel, which
  does, carries the label \<open>LISTENING\<close>, not \<open>LISTEN\<close>.
\<close>

theorem parseIP_listen_counterexample:
  "parseIP ''/proc/net/tcp''
     ''0100007F:13AD 00000000:0000 0A 00000000:00000000 00:00000000 00000000 1000 0 18083222 1 0000000000000000 100 0 0 10 0''
     ''tcp'' = Panic (ConversionFailure ''00000000:00000000'')
   \<and> parseIP ''/proc/net/tcp''
     ''0:  0100007F:13AD 00000000:0000 0A 00000000:00000000 00:00000000 00000000  1000        0 18083222''
     ''tcp'' =
    Ok \<lparr>Proto = ''tcp'', Type = 0, TypeString = [], Groups = [], Path = [], State = 10,
        StateString = ''LISTENING'', SrcIP = [127, 0, 0, 1], SrcPort = 5037,
        DstIP = [0, 0, 0, 0], DstPort = 0, UserId = 1000, INode = 18083222\<rparr>
   \<and> ''LISTENING'' \<noteq> ''LISTEN''"
  by (simp add: parseIP_def Fields_literal_tcp Fields_sample_tcp eval_conv eval_entry)

section \<open>The labels of the socket states\<close>

lemma dom_sockStates: "dom sockStates = {1..12}"
proof -
  have "dom sockStates = {1, 2, 3, 4, 5, 6, 7, 8, 9, 10, 11, 12}"
    by (simp add: sockStates_def tcp_states dom_map_of_conv_image_fst)
  also have "\<dots> = {1..12::nat}"
    by (intro set_eqI; simp; arith)
  finally show ?thesis .
qed

lemma label_unknown: "c < 1 \<or> 12 < c \<Longrightarrow> label sockStates c = []"
proof -
  assume "c < 1 \<or> 12 < c"
  then have "c \<notin> dom sockStates" by (auto simp: dom_sockStates)
  then show ?thesis by (simp add: label_def domIff)
qed

text \<open>
  Claim C5, amended. The table of the state labels has the 12 codes 1 to 12, the last
  one \<open>TCP_NEW_SYN_RECV\<close>. A code outside the table has the empty label, and a line
  whose state column is such a code decodes, in the IP decoder and in the unix-domain
  decoder, to a record with that state and the empty label.
\<close>

theorem sockStates_enumeration:
  "dom sockStates = {1..12} \<and> card (dom sockStates) = 12
   \<and> (c < 1 \<or> 12 < c \<longrightarrow> label sockStates c = [])
   \<and> (10 \<le> length (Fields line)
        \<and> Split (Fields line ! 1) CHR '':'' = l0 # l1 # ls
        \<and> Split (Fields line ! 2) CHR '':'' = r0 # r1 # rs
        \<and> hexToInt (Fields line ! 3) = Ok c \<and> (c < 1 \<or> 12 < c)
        \<and> hexToIP l0 = Ok sip \<and> hexToInt l1 = Ok sport
        \<and> hexToIP r0 = Ok dip \<and> hexToInt r1 = Ok dport
        \<and> decToInt (Fields line ! 7) = Ok uid \<and> decToInt (Fields line ! 9) = Ok ino
      \<longrightarrow> parseIP filename line proto =
            Ok \<lparr>Proto = proto, Type = 0, TypeString = [], Groups = [], Path = [], State = c,
                StateString = [], SrcIP = sip, SrcPort = sport, DstIP = dip,
                DstPort = dport, UserId = uid, INode = ino\<rparr>)
   \<and> (7 \<le> length (Fields line)
        \<and> hexToInt (Fields line ! 4) = Ok ty
        \<and> hexToInt (Fields line ! 5) = Ok c \<and> (c < 1 \<or> 12 < c)
        \<and> decToInt (Fields line ! 6) = Ok ino
      \<longrightarrow> parseUnix filename line proto =
            Ok \<lparr>Proto = proto, Type = ty, TypeString = label sockTypes ty, Groups = [],
                Path = (if 7 < length (Fields line) then Fields line ! 7 else []), State = c,
                StateString = [], SrcIP = [], SrcPort = 0, DstIP = [],
                DstPort = 0, UserId = 0, INode = ino\<rparr>)"
proof (intro conjI impI)
  show "dom sockStates = {1..12}" by (rule dom_sockStates)
  show "card (dom sockStates) = 12" by (simp add: dom_sockStates)
  show "label sockStates c = []" if "c < 1 \<or> 12 < c" using that by (rule label_unknown)
next
  assume a: "10 \<le> length (Fields line)
        \<and> Split (Fields line ! 1) CHR '':'' = l0 # l1 # ls
        \<and> Split (Fields line ! 2) CHR '':'' = r0 # r1 # rs
        \<and> hexToInt (Fields line ! 3) = Ok c \<and> (c < 1 \<or> 12 < c)
        \<and> hexToIP l0 = Ok sip \<and> hexToInt l1 = Ok sport
        \<and> hexToIP r0 = Ok dip \<and> hexToInt r1 = Ok dport
        \<and> decToInt (Fields line ! 7) = Ok uid \<and> decToInt (Fields line ! 9) = Ok ino"
  then have "label sockStates c = []" using label_unknown by blast
  with a show "parseIP filename line proto =
            Ok \<lparr>Proto = proto, Type = 0, TypeString = [], Groups = [], Path = [], State = c,
                StateString = [], SrcIP = sip, SrcPort = sport, DstIP = dip,
                DstPort = dport, UserId = uid, INode = ino\<rparr>"
    using parseIP_Ok [of line l0 l1 ls r0 r1 rs c sip sport dip dport uid ino filename proto]
    by simp
next
  assume a: "7 \<le> length (Fields line)
        \<and> hexToInt (Fields line ! 4) = Ok ty
        \<and> hexToInt (Fields line ! 5) = Ok c \<and> (c < 1 \<or> 12 < c)
        \<and> decToInt (Fields line ! 6) = Ok ino"
  then have "label sockStates c = []" using label_unknown by blast
  with a show "parseUnix filename line proto =
            Ok \<lparr>Proto = proto, Type = ty, TypeString = label sockTypes ty, Groups = [],
                Path = (if 7 < length (Fields line) then Fields line ! 7 else []), State = c,
                StateString = [], SrcIP = [], SrcPort = 0, DstIP = [],
                DstPort = 0, UserId = 0, INode = ino\<rparr>"
    using parseUnix_Ok [of line ty c ino filename proto] by simp
qed

lemma Fields_unknown_state:
  "Fields ''0: 0100007F:13AD 00000000:0000 0D 0:0 0:0 0 1000 0 18083222'' =
     [''0:'', ''0100007F:13AD'', ''00000000:0000'', ''0D'', ''0:0'', ''0:0'', ''0'', ''1000'', ''0'',
      ''18083222'']"
  by (simp add: eval_fields)

lemma Fields_unix_state0:
  "Fields ''0000000000000000: 00000002 00000000 00010000 0001 00 28271'' =
     [''0000000000000000:'', ''00000002'', ''00000000'', ''00010000'', ''0001'', ''00'', ''28271'']"
  by (simp add: eval_fields)

theorem sockStates_enumeration_witness:
  "parseIP ''/proc/net/tcp'' ''0: 0100007F:13AD 00000000:0000 0D 0:0 0:0 0 1000 0 18083222'' ''tcp''
     = Ok \<lparr>Proto = ''tcp'', Type = 0, TypeString = [], Groups = [], Path = [], State = 13,
           StateString = [], SrcIP = [127, 0, 0, 1], SrcPort = 5037, DstIP = [0, 0, 0, 0],
           DstPort = 0, UserId = 1000, INode = 18083222\<rparr>
   \<and> parseUnix ''/proc/net/unix'' ''0000000000000000: 00000002 00000000 00010000 0001 00 28271''
       ''unix''
     = Ok \<lparr>Proto = ''unix'', Type = 1, TypeString = ''SOCK_STREAM'', Groups = [], Path = [],
           State = 0, StateString = [], SrcIP = [], SrcPort = 0, DstIP = [], DstPort = 0,
           UserId = 0, INode = 28271\<rparr>
   \<and> label sockStates 0 = []"
  using sockStates_enumeration [where c = 13 and line = "''0: 0100007F:13AD 00000000:0000 0D 0:0 0:0 0 1000 0 18083222''"
      and filename = "''/proc/net/tcp''" and proto = "''tcp''" and ?l0.0 = "''0100007F''" and ?l1.0 = "''13AD''"
      and ls = "[]" and ?r0.0 = "''00000000''" and ?r1.0 = "''0000''" and rs = "[]"
      and sip = "[127, 0, 0, 1]" and sport = 5037 and dip = "[0, 0, 0, 0]" and dport = 0
      and uid = 1000 and ino = 18083222]
    sockStates_enumeration [where c = 0
      and line = "''0000000000000000: 00000002 00000000 00010000 0001 00 28271''"
      and filename = "''/proc/net/unix''" and proto = "''unix''" and ty = 1 and ino = 28271]
  by (simp add: Fields_unknown_state Fields_unix_state0 eval_conv label_def sockTypes_def)

text \<open>The table has a label for the code 12, so it does not have 11 values.\<close>

theorem sockStates_eleven_counterexample:
  "label sockStates 12 = ''NEW_SYN_RECV'' \<and> card (dom sockStates) \<noteq> 11"
  by (simp add: dom_sockStates label_def sockStates_def tcp_states)

section \<open>The path of a unix-domain socket\<close>

lemma Fields_path_with_space:
  assumes "length (Fields pre) = 7" and "Fields w = [w]"
  shows "Fields (pre @ '' '' @ w @ '' '' @ rest) ! 7 = w"
    and "7 < length (Fields (pre @ '' '' @ w @ '' '' @ rest))"
proof -
  have sp: "asciiSpace CHR '' ''" by (simp add: asciiSpace_def)
  have "Fields (pre @ CHR '' '' # w @ CHR '' '' # rest)
      = Fields pre @ Fields (w @ CHR '' '' # rest)"
    using sp by (rule Fields_append_space)
  also have "\<dots> = Fields pre @ w # Fields rest"
    using Fields_append_space [OF sp, of w rest] assms(2) by simp
  finally have eq: "Fields (pre @ CHR '' '' # w @ CHR '' '' # rest)
      = Fields pre @ w # Fields rest" .
  show "Fields (pre @ '' '' @ w @ '' '' @ rest) ! 7 = w"
    using assms(1) by (simp add: eq nth_append)
  show "7 < length (Fields (pre @ '' '' @ w @ '' '' @ rest))"
    using assms(1) by (simp add: eq)
qed

text \<open>
  Claim C7. A unix-domain line decodes only when it has at least 7 fields; the path of
  the record is empty when it has exactly 7 and is the eighth field when it has more.
  A line of 7 fields with the type \<open>0001\<close> and the state \<open>01\<close> decodes to the label
  \<open>SOCK_STREAM\<close>, the label of state 1 and the empty path. When the path column is
  \<open>w\<close>, a space and more text, \<open>w\<close> holding no white space, the path of the record
  is \<open>w\<close> alone.
\<close>

theorem parseUnix_path:
  "(parseUnix filename line proto = Ok e \<longrightarrow>
      7 \<le> length (Fields line)
      \<and> (length (Fields line) = 7 \<longrightarrow> Path e = [])
      \<and> (7 < length (Fields line) \<longrightarrow> Path e = Fields line ! 7))
   \<and> (Fields line = [num, refcount, protocol, flags, ''0001'', ''01'', inode]
        \<and> decToInt inode = Ok ino
      \<longrightarrow> parseUnix filename line proto =
            Ok \<lparr>Proto = proto, Type = 1, TypeString = ''SOCK_STREAM'', Groups = [], Path = [],
                State = 1, StateString = ''ESTABLISHED'', SrcIP = [], SrcPort = 0, DstIP = [],
                DstPort = 0, UserId = 0, INode = ino\<rparr>)
   \<and> (length (Fields pre) = 7 \<and> Fields w = [w]
        \<and> parseUnix filename (pre @ '' '' @ w @ '' '' @ rest) proto = Ok e'
      \<longrightarrow> Path e' = w)"
proof (intro conjI impI)
  assume ok: "parseUnix filename line proto = Ok e"
  show "7 \<le> length (Fields line)"
    using ok by (auto simp: parseUnix_def Let_def split: if_splits)
  show "Path e = []" if "length (Fields line) = 7"
    using parseUnix_Ok_Path [OF ok] that by simp
  show "Path e = Fields line ! 7" if "7 < length (Fields line)"
    using parseUnix_Ok_Path [OF ok] that by simp
next
  assume a: "Fields line = [num, refcount, protocol, flags, ''0001'', ''01'', inode]
        \<and> decToInt inode = Ok ino"
  have c: "hexToInt ''0001'' = Ok 1" "hexToInt ''01'' = Ok 1"
    by (simp_all add: hexToInt_def hexDigit_def)
  have l: "label sockTypes 1 = ''SOCK_STREAM''" "label sockStates 1 = ''ESTABLISHED''"
    by (simp_all add: eval_entry)
  show "parseUnix filename line proto =
            Ok \<lparr>Proto = proto, Type = 1, TypeString = ''SOCK_STREAM'', Groups = [], Path = [],
                State = 1, StateString = ''ESTABLISHED'', SrcIP = [], SrcPort = 0, DstIP = [],
                DstPort = 0, UserId = 0, INode = ino\<rparr>"
    using parseUnix_Ok [of line 1 1 ino filename proto] a c l by simp
next
  assume a: "length (Fields pre) = 7 \<and> Fields w = [w]
        \<and> parseUnix filename (pre @ '' '' @ w @ '' '' @ rest) proto = Ok e'"
  then have "Path e' = (if 7 < length (Fields (pre @ '' '' @ w @ '' '' @ rest))
      then Fields (pre @ '' '' @ w @ '' '' @ rest) ! 7 else [])"
    using parseUnix_Ok_Path by blast
  with a show "Path e' = w"
    using Fields_path_with_space [of pre w rest] by simp
qed

lemma Fields_unix_nopath:
  "Fields ''0000000000000000: 00000002 00000000 00010000 0001 01 28271'' =
     [''0000000000000000:'', ''00000002'', ''00000000'', ''00010000'', ''0001'', ''01'', ''28271'']"
  by (simp add: eval_fields)

lemma Fields_token: "Fields ''/tmp/my'' = [''/tmp/my'']"
  by (simp add: eval_fields)

lemma Fields_unix_spaced:
  "Fields ''0000000000000000: 00000002 00000000 00010000 0001 01 28271 /tmp/my socket'' =
     [''0000000000000000:'', ''00000002'', ''00000000'', ''00010000'', ''0001'', ''01'', ''28271'',
      ''/tmp/my'', ''socket'']"
  by (simp add: eval_fields)

theorem parseUnix_path_witness:
  "parseUnix ''/proc/net/unix'' ''0000000000000000: 00000002 00000000 00010000 0001 01 28271''
       ''unix''
     = Ok \<lparr>Proto = ''unix'', Type = 1, TypeString = ''SOCK_STREAM'', Groups = [], Path = [],
           State = 1, StateString = ''ESTABLISHED'', SrcIP = [], SrcPort = 0, DstIP = [],
           DstPort = 0, UserId = 0, INode = 28271\<rparr>
   \<and> parseUnix ''/proc/net/unix''
       ''0000000000000000: 00000002 00000000 00010000 0001 01 28271 /tmp/my socket'' ''unix''
     = Ok \<lparr>Proto = ''unix'', Type = 1, TypeString = ''SOCK_STREAM'', Groups = [],
           Path = ''/tmp/my'', State = 1, StateString = ''ESTABLISHED'', SrcIP = [],
           SrcPort = 0, DstIP = [], DstPort = 0, UserId = 0, INode = 28271\<rparr>"
proof -
  let ?pre = "''0000000000000000: 00000002 00000000 00010000 0001 01 28271''"
  let ?e = "\<lparr>Proto = ''unix'', Type = 1, TypeString = ''SOCK_STREAM'', Groups = [],
           Path = ''/tmp/my'', State = 1, StateString = ''ESTABLISHED'', SrcIP = [],
           SrcPort = 0, DstIP = [], DstPort = 0, UserId = 0, INode = 28271\<rparr>"
  have d: "decToInt ''28271'' = Ok 28271"
    by (simp add: decToInt_def decDigit_def)
  have first: "parseUnix ''/proc/net/unix'' ?pre ''unix''
     = Ok \<lparr>Proto = ''unix'', Type = 1, TypeString = ''SOCK_STREAM'', Groups = [], Path = [],
           State = 1, StateString = ''ESTABLISHED'', SrcIP = [], SrcPort = 0, DstIP = [],
           DstPort = 0, UserId = 0, INode = 28271\<rparr>"
    using parseUnix_path [where line = ?pre and filename = "''/proc/net/unix''"
        and proto = "''unix''" and ino = 28271 and inode = "''28271''"
        and num = "''0000000000000000:''" and refcount = "''00000002''"
        and protocol = "''00000000''" and flags = "''00010000''"] d
    by (simp add: Fields_unix_nopath)
  obtain e where e: "parseUnix ''/proc/net/unix'' (?pre @ '' '' @ ''/tmp/my'' @ '' '' @ ''socket'')
      ''unix'' = Ok e" "e = ?e"
    by (simp add: parseUnix_def Fields_unix_spaced eval_conv eval_entry)
  have "Path e = ''/tmp/my''"
    using parseUnix_path [where pre = ?pre and w = "''/tmp/my''" and rest = "''socket''"
        and filename = "''/proc/net/unix''" and proto = "''unix''" and e' = e] e(1)
    by (simp add: Fields_unix_nopath Fields_token)
  with first e show ?thesis by simp
qed

section \<open>The scanner\<close>

lemma decode_short:
  "length (Fields line) < minFields proto \<Longrightarrow>
   decode filename line proto =
     Err (parseError filename (reportedFields proto (length (Fields line))) line)"
  by (auto simp: decode_def minFields_def reportedFields_def parseUnix_def parseNetlink_def
      parseIP_def Let_def split: if_splits)

lemma decode_Ok_not_short:
  "decode filename line proto = Ok e \<Longrightarrow> minFields proto \<le> length (Fields line)"
  using decode_short [of line proto filename] by (cases "length (Fields line) < minFields proto") auto

lemma scanLines_good:
  assumes "list_all2 (\<lambda>t e. decode filename (Trim t) proto = Ok e) good es" and "0 < n"
  shows "scanLines filename proto n (good @ rest) acc
    = scanLines filename proto (n + length good) rest (acc @ es)"
  using assms
proof (induction good es arbitrary: n acc rule: list_all2_induct)
  case Nil
  then show ?case by simp
next
  case (Cons t e good es)
  then show ?case by simp
qed

lemma scanLines_Err:
  "0 < n \<Longrightarrow> decode filename (Trim t) proto = Err e \<Longrightarrow>
   scanLines filename proto n (t # rest) acc = Panic (PanicError e)"
  by simp

lemma scanLines_short_panics:
  assumes "\<exists>t \<in> set lines. length (Fields t) < minFields proto" and "0 < n"
  shows "\<exists>p. scanLines filename proto n lines acc = Panic p"
  using assms
proof (induction lines arbitrary: n acc)
  case Nil
  then show ?case by simp
next
  case (Cons t lines)
  show ?case
  proof (cases "decode filename (Trim t) proto")
    case (Ok e)
    then have "minFields proto \<le> length (Fields (Trim t))" by (rule decode_Ok_not_short)
    then have "\<not> length (Fields t) < minFields proto" by (simp add: Fields_Trim)
    with Cons.prems have "\<exists>t \<in> set lines. length (Fields t) < minFields proto" by auto
    then have "\<exists>p. scanLines filename proto (n + 1) lines (acc @ [e]) = Panic p"
      by (rule Cons.IH) simp
    with Ok Cons.prems(2) show ?thesis by simp
  next
    case (Err e)
    with Cons.prems(2) show ?thesis by simp
  next
    case (Panic p)
    with Cons.prems(2) show ?thesis by simp
  qed
qed

lemma parseNetworkForProtocol_cong:
  "fs (procFS @ ''/net/'' @ proto) = fs' (procFS @ ''/net/'' @ proto) \<Longrightarrow>
   parseNetworkForProtocol fs procFS proto = parseNetworkForProtocol fs' procFS proto"
  by (simp add: parseNetworkForProtocol_def)

text \<open>What the scanner yields for a file given by its lines.\<close>

lemma scanFrom_line:
  "CHR 0x0A \<notin> set l \<Longrightarrow>
   scanFrom cur (l @ CHR 0x0A # rest) =
     (if MaxScanTokenSize \<le> length (cur @ l) then [] else dropCR (cur @ l) # scanFrom [] rest)"
  by (induction l arbitrary: cur) auto

lemma scannerLines_fileOf:
  assumes "\<forall>l \<in> set ls. CHR 0x0A \<notin> set l"
  shows "scannerLines (fileOf ls) = map dropCR (takeWhile (\<lambda>l. length l < MaxScanTokenSize) ls)"
  using assms
proof (induction ls)
  case Nil
  show ?case by (simp add: scannerLines_def fileOf_def)
next
  case (Cons l ls)
  then have "scanFrom [] (fileOf ls) = map dropCR (takeWhile (\<lambda>l. length l < MaxScanTokenSize) ls)"
    by (simp add: scannerLines_def)
  moreover have "scanFrom [] (fileOf (l # ls)) =
      (if MaxScanTokenSize \<le> length l then [] else dropCR l # scanFrom [] (fileOf ls))"
    using Cons.prems scanFrom_line [of l "[]" "fileOf ls"] by (simp add: fileOf_def)
  ultimately show ?case by (simp add: scannerLines_def)
qed

text \<open>
  Claim C4, amended. Take a table file in which the scanner reaches a line with fewer
  fields than the minimum of the family: one of the lines it yields after the header
  is short. (It yields the lines of the file up to the first line of 64 KiB or more,
  as \<open>scannerLines_fileOf\<close> says.) The scan of the table returns no records: it
  panics. When the lines before the first short line all decode, the value of the
  panic is the error of the decoder, whose message names the file and the line,
  trimmed, with the count the decoder reports.
\<close>

theorem short_line_aborts_scan:
  assumes "fs (procFS @ ''/net/'' @ proto) = Some (scannerLines content)"
    and "scannerLines content = header # lines"
    and "\<exists>t \<in> set lines. length (Fields t) < minFields proto"
  shows "(\<exists>p. parseNetworkForProtocol fs procFS proto = Panic p)
    \<and> (lines = good @ bad # rest
         \<and> list_all2 (\<lambda>t e. decode (procFS @ ''/net/'' @ proto) (Trim t) proto = Ok e) good es
         \<and> length (Fields bad) < minFields proto
       \<longrightarrow> parseNetworkForProtocol fs procFS proto =
             Panic (PanicError (Errorf (''could not parse netstat line from ''
               @ procFS @ ''/net/'' @ proto @ '' (got ''
               @ fmt_d (reportedFields proto (length (Fields bad))) @ '' fields): ''
               @ Trim bad))))"
proof (intro conjI impI)
  show "\<exists>p. parseNetworkForProtocol fs procFS proto = Panic p"
    using assms scanLines_short_panics [of lines proto 1 "procFS @ ''/net/'' @ proto" "[]"]
    by (simp add: parseNetworkForProtocol_def)
next
  let ?f = "procFS @ ''/net/'' @ proto"
  assume a: "lines = good @ bad # rest
         \<and> list_all2 (\<lambda>t e. decode ?f (Trim t) proto = Ok e) good es
         \<and> length (Fields bad) < minFields proto"
  then have "decode ?f (Trim bad) proto
      = Err (parseError ?f (reportedFields proto (length (Fields bad))) (Trim bad))"
    using decode_short [of "Trim bad" proto ?f] by (simp add: Fields_Trim)
  then have "scanLines ?f proto (1 + length good) (bad # rest) ([] @ es)
      = Panic (PanicError (parseError ?f (reportedFields proto (length (Fields bad))) (Trim bad)))"
    by simp
  moreover have "scanLines ?f proto 1 (good @ bad # rest) []
      = scanLines ?f proto (1 + length good) (bad # rest) ([] @ es)"
    using a by (intro scanLines_good) simp_all
  ultimately show "parseNetworkForProtocol fs procFS proto =
             Panic (PanicError (Errorf (''could not parse netstat line from ''
               @ procFS @ ''/net/'' @ proto @ '' (got ''
               @ fmt_d (reportedFields proto (length (Fields bad))) @ '' fields): ''
               @ Trim bad)))"
    using assms(1,2) a by (simp add: parseNetworkForProtocol_def parseError_def)
qed


lemma decode_tcp_line:
  "decode ''/proc/net/tcp''
     (Trim ''   0: 0100007F:13AD 00000000:0000 0A 00000000:00000000 00:00000000 00000000  1000        0 18083222'')
     ''tcp'' = Ok tcpEntry"
  by (simp add: decode_def Trim_def cutset_def parseIP_def eval_fields eval_conv eval_entry
      tcpEntry_def)

lemma decode_unix_line:
  "decode ''/proc/net/unix''
     (Trim ''0000000000000000: 00000002 00000000 00010000 0001 01 28271 /run/user/1000/gnupg/S.dirmngr'')
     ''unix'' = Ok unixEntry"
  by (simp add: decode_def Trim_def cutset_def parseUnix_def eval_fields eval_conv eval_entry
      unixEntry_def)

lemma decode_netlink_line:
  "decode ''/proc/net/netlink''
     (Trim ''0000000000000000 0   2014       00000110 0        0        0        2         0         27854'')
     ''netlink'' = Ok netlinkEntry"
  by (simp add: decode_def Trim_def cutset_def parseNetlink_def eval_fields eval_conv eval_entry
      netlinkEntry_def)

lemma scan_example:
  "parseNetworkForProtocol exampleFS ''/proc'' ''tcp'' = Ok [tcpEntry]"
  "parseNetworkForProtocol exampleFS ''/proc'' ''tcp6'' = Ok []"
  "parseNetworkForProtocol exampleFS ''/proc'' ''udp'' = Ok []"
  "parseNetworkForProtocol exampleFS ''/proc'' ''udp6'' = Ok []"
  "parseNetworkForProtocol exampleFS ''/proc'' ''unix'' = Ok [unixEntry]"
  "parseNetworkForProtocol exampleFS ''/proc'' ''netlink'' = Ok [netlinkEntry]"
  by (simp_all add: parseNetworkForProtocol_def exampleFS_def decode_tcp_line decode_unix_line
      decode_netlink_line)

lemma Trim_abc: "Trim ''  a b c'' = ''a b c''"
  by (simp add: Trim_def cutset_def)

lemma Fields_abc_raw: "Fields ''  a b c'' = [''a'', ''b'', ''c'']"
  using Fields_Trim [of "''  a b c''"] by (simp add: Trim_abc Fields_abc)

lemma dropCR_id: "CHR 0x0D \<notin> set l \<Longrightarrow> dropCR l = l"
proof -
  assume no: "CHR 0x0D \<notin> set l"
  have "\<not> (l \<noteq> [] \<and> last l = CHR 0x0D)"
  proof
    assume "l \<noteq> [] \<and> last l = CHR 0x0D"
    then have "CHR 0x0D \<in> set l" using last_in_set [of l] by auto
    with no show False by simp
  qed
  then show ?thesis unfolding dropCR_def by (rule if_not_P)
qed

lemma scannerLines_unix_short:
  "scannerLines (fileOf
     [unixHeader,
      ''0000000000000000: 00000002 00000000 00010000 0001 01 28271 /run/user/1000/gnupg/S.dirmngr'',
      ''  a b c''])
   = [unixHeader,
      ''0000000000000000: 00000002 00000000 00010000 0001 01 28271 /run/user/1000/gnupg/S.dirmngr'',
      ''  a b c'']"
  by (simp add: scannerLines_fileOf unixHeader_def MaxScanTokenSize_def dropCR_id)

lemma scannerLines_tcp_no_colon:
  "scannerLines (fileOf
     [tcpHeader, ''0: 0100007F 00000000:0000 0A 0:0 0:0 0 1000 0 18083222'', ''a b c''])
   = [tcpHeader, ''0: 0100007F 00000000:0000 0A 0:0 0:0 0 1000 0 18083222'', ''a b c'']"
  by (simp add: scannerLines_fileOf tcpHeader_def MaxScanTokenSize_def dropCR_id)

lemma scannerLines_tcp_long:
  "scannerLines (fileOf
     [tcpHeader,
      ''   0: 0100007F:13AD 00000000:0000 0A 00000000:00000000 00:00000000 00000000  1000        0 18083222'',
      replicate 70000 CHR ''0'',
      ''a b c''])
   = [tcpHeader,
      ''   0: 0100007F:13AD 00000000:0000 0A 00000000:00000000 00:00000000 00000000  1000        0 18083222'']"
  by (simp add: scannerLines_fileOf tcpHeader_def MaxScanTokenSize_def dropCR_id)

theorem short_line_aborts_scan_witness:
  "parseNetworkForProtocol
     (exampleFS(''/proc/net/unix'' \<mapsto> scannerLines (fileOf
        [unixHeader,
         ''0000000000000000: 00000002 00000000 00010000 0001 01 28271 /run/user/1000/gnupg/S.dirmngr'',
         ''  a b c''])))
     ''/proc'' ''unix''
   = Panic (PanicError (Errorf
       ''could not parse netstat line from /proc/net/unix (got 7 fields): a b c''))"
  using short_line_aborts_scan [where proto = "''unix''" and procFS = "''/proc''"
      and content = "fileOf
        [unixHeader,
         ''0000000000000000: 00000002 00000000 00010000 0001 01 28271 /run/user/1000/gnupg/S.dirmngr'',
         ''  a b c'']"
      and fs = "exampleFS(''/proc/net/unix'' \<mapsto> scannerLines (fileOf
        [unixHeader,
         ''0000000000000000: 00000002 00000000 00010000 0001 01 28271 /run/user/1000/gnupg/S.dirmngr'',
         ''  a b c'']))"
      and header = unixHeader
      and lines = "[''0000000000000000: 00000002 00000000 00010000 0001 01 28271 /run/user/1000/gnupg/S.dirmngr'',
         ''  a b c'']"
      and good = "[''0000000000000000: 00000002 00000000 00010000 0001 01 28271 /run/user/1000/gnupg/S.dirmngr'']"
      and bad = "''  a b c''" and rest = "[]" and es = "[unixEntry]"]
    decode_unix_line
  by (simp add: scannerLines_unix_short Fields_abc_raw Trim_abc minFields_def reportedFields_def
      fmt_d_7)

text \<open>
  The claim as it is written fails in two ways. A table where an earlier line makes
  the decoder panic stops there, with that panic. And in a table where a line of
  64 KiB or more comes before the short line the scanner stops at the long line: the
  scan returns the records of the lines before it and no error.
\<close>

theorem short_line_other_panic_counterexample:
  "length (Fields ''a b c'') < minFields ''tcp''
   \<and> parseNetworkForProtocol
     (exampleFS(''/proc/net/tcp'' \<mapsto> scannerLines (fileOf
        [tcpHeader, ''0: 0100007F 00000000:0000 0A 0:0 0:0 0 1000 0 18083222'', ''a b c''])))
     ''/proc'' ''tcp''
   = Panic (IndexOutOfRange 1 1)
   \<and> parseNetworkForProtocol
     (exampleFS(''/proc/net/tcp'' \<mapsto> scannerLines (fileOf
        [tcpHeader,
         ''   0: 0100007F:13AD 00000000:0000 0A 00000000:00000000 00:00000000 00000000  1000        0 18083222'',
         replicate 70000 CHR ''0'',
         ''a b c''])))
     ''/proc'' ''tcp''
   = Ok [tcpEntry]"
  by (simp add: scannerLines_tcp_no_colon scannerLines_tcp_long parseNetworkForProtocol_def
      decode_tcp_line)
     (simp add: decode_def Trim_def cutset_def parseIP_def Fields_no_colon_line Fields_abc
      minFields_def eval_conv)

section \<open>The index\<close>

lemma store_append: "store m (xs @ ys) = store (store m xs) ys"
  by (induction xs arbitrary: m) simp_all

lemma find_append_cases:
  "find P (xs @ ys) = (case find P xs of None \<Rightarrow> find P ys | Some x \<Rightarrow> Some x)"
  by (induction xs) simp_all

lemma store_lookup:
  "store m es i = (case find (\<lambda>e. INode e = i) (rev es) of None \<Rightarrow> m i | Some e \<Rightarrow> Some e)"
proof (induction es arbitrary: m)
  case Nil
  show ?case by simp
next
  case (Cons x xs)
  show ?case
    by (simp add: Cons.IH find_append_cases split: option.splits)
qed

lemma dom_store: "dom (store m es) = dom m \<union> INode ` set es"
  by (induction es arbitrary: m) auto

lemma inodesOf_all_Ok:
  assumes "list_all2 (\<lambda>p es. parseNetworkForProtocol fs procFS p = Ok es) ps ess"
  shows "inodesOf fs procFS (ps @ rest) m = inodesOf fs procFS rest (store m (concat ess))"
  using assms
proof (induction ps ess arbitrary: m rule: list_all2_induct)
  case Nil
  show ?case by simp
next
  case (Cons p es ps ess)
  then show ?case by (simp add: store_append)
qed

lemma inodesOf_first_Err:
  assumes "\<forall>p \<in> set ps. \<exists>es. parseNetworkForProtocol fs procFS p = Ok es"
    and "parseNetworkForProtocol fs procFS q = Err e"
  shows "inodesOf fs procFS (ps @ q # rest) m = Err e"
  using assms by (induction ps arbitrary: m) auto

lemma inodesOf_Ok_all:
  assumes "inodesOf fs procFS ps m = Ok m'"
  shows "\<forall>p \<in> set ps. \<exists>es. parseNetworkForProtocol fs procFS p = Ok es"
  using assms
  by (induction ps arbitrary: m) (auto split: result.splits)

lemma parseNetworkForProtocol_Err_iff:
  "parseNetworkForProtocol fs procFS proto = Err e \<longleftrightarrow>
     fs (procFS @ ''/net/'' @ proto) = None \<and> e = OpenError (procFS @ ''/net/'' @ proto)"
proof -
  have "scanLines filename proto n lines acc \<noteq> Err e" for filename n lines acc
    by (induction lines arbitrary: n acc) (auto split: result.splits)
  then show ?thesis
    by (auto simp: parseNetworkForProtocol_def Let_def split: option.splits)
qed

text \<open>
  Claim C3. The scan of a family returns an error exactly when its file cannot be
  opened. When the families before the \<open>k\<close>-th scan and the \<open>k\<close>-th returns an error,
  the build returns that error; and when the scan of any family returns an error, the
  build returns no map.
\<close>

theorem first_scan_error_aborts:
  "(parseNetworkForProtocol fs procFS proto = Err e \<longleftrightarrow>
      fs (procFS @ ''/net/'' @ proto) = None \<and> e = OpenError (procFS @ ''/net/'' @ proto))
   \<and> (k < length protocols
        \<and> (\<forall>j<k. \<exists>es. parseNetworkForProtocol fs procFS (protocols ! j) = Ok es)
        \<and> parseNetworkForProtocol fs procFS (protocols ! k) = Err e'
      \<longrightarrow> parseNetworkInodes fs procFS = Err e')
   \<and> (p \<in> set protocols \<and> parseNetworkForProtocol fs procFS p = Err e''
      \<longrightarrow> (\<forall>m. parseNetworkInodes fs procFS \<noteq> Ok m))"
proof (intro conjI impI)
  show "parseNetworkForProtocol fs procFS proto = Err e \<longleftrightarrow>
      fs (procFS @ ''/net/'' @ proto) = None \<and> e = OpenError (procFS @ ''/net/'' @ proto)"
    by (rule parseNetworkForProtocol_Err_iff)
next
  assume a: "k < length protocols
        \<and> (\<forall>j<k. \<exists>es. parseNetworkForProtocol fs procFS (protocols ! j) = Ok es)
        \<and> parseNetworkForProtocol fs procFS (protocols ! k) = Err e'"
  then have split: "protocols = take k protocols @ protocols ! k # drop (Suc k) protocols"
    by (simp add: id_take_nth_drop)
  have "\<forall>p \<in> set (take k protocols). \<exists>es. parseNetworkForProtocol fs procFS p = Ok es"
    using a by (auto simp: in_set_conv_nth)
  then have "inodesOf fs procFS (take k protocols @ protocols ! k # drop (Suc k) protocols)
      Map.empty = Err e'"
    using a by (intro inodesOf_first_Err) simp_all
  with split show "parseNetworkInodes fs procFS = Err e'"
    by (simp add: parseNetworkInodes_def)
next
  assume "p \<in> set protocols \<and> parseNetworkForProtocol fs procFS p = Err e''"
  then have a: "p \<in> set protocols" "parseNetworkForProtocol fs procFS p = Err e''"
    by simp_all
  show "\<forall>m. parseNetworkInodes fs procFS \<noteq> Ok m"
  proof (intro allI notI)
    fix m
    assume "parseNetworkInodes fs procFS = Ok m"
    then have "inodesOf fs procFS protocols Map.empty = Ok m"
      by (simp add: parseNetworkInodes_def)
    then have "\<forall>q \<in> set protocols. \<exists>es. parseNetworkForProtocol fs procFS q = Ok es"
      by (rule inodesOf_Ok_all)
    with a(1) have "\<exists>es. parseNetworkForProtocol fs procFS p = Ok es"
      by blast
    with a(2) show False by simp
  qed
qed

lemma scan_updated:
  "procFS @ ''/net/'' @ proto \<noteq> f \<Longrightarrow>
   parseNetworkForProtocol (fs(f := v)) procFS proto = parseNetworkForProtocol fs procFS proto"
  by (simp add: parseNetworkForProtocol_def)

theorem first_scan_error_aborts_witness:
  "parseNetworkForProtocol exampleFS ''/proc'' ''tcp'' = Ok [tcpEntry]
   \<and> parseNetworkForProtocol exampleFS ''/proc'' ''tcp6'' = Ok []
   \<and> parseNetworkInodes (exampleFS(''/proc/net/udp'' := None)) ''/proc''
     = Err (OpenError ''/proc/net/udp'')"
proof -
  let ?fs = "exampleFS(''/proc/net/udp'' := None)"
  have udp: "parseNetworkForProtocol ?fs ''/proc'' ''udp'' = Err (OpenError ''/proc/net/udp'')"
    by (simp add: parseNetworkForProtocol_def)
  have before: "\<forall>j<2. \<exists>es. parseNetworkForProtocol ?fs ''/proc'' (protocols ! j) = Ok es"
  proof (intro allI impI)
    fix j :: nat
    assume "j < 2"
    then consider "j = 0" | "j = 1" by linarith
    then show "\<exists>es. parseNetworkForProtocol ?fs ''/proc'' (protocols ! j) = Ok es"
      by cases (simp_all add: protocols_def scan_updated scan_example)
  qed
  have "parseNetworkInodes ?fs ''/proc'' = Err (OpenError ''/proc/net/udp'')"
    using first_scan_error_aborts [where k = 2 and fs = ?fs and procFS = "''/proc''"
        and e' = "OpenError ''/proc/net/udp''"] udp before
    by (simp add: protocols_def)
  then show ?thesis by (simp add: scan_example)
qed

text \<open>
  Claim C2. The families are scanned in the order tcp, tcp6, udp, udp6, unix, netlink.
  When the six scans return their records, the build returns the map that stores them
  all in that order, and the map holds at an inode the last record with it in that
  order: a record of a later family replaces one of an earlier family.
\<close>

theorem index_folds_families_in_order:
  assumes "parseNetworkForProtocol fs procFS ''tcp'' = Ok tcp"
    and "parseNetworkForProtocol fs procFS ''tcp6'' = Ok tcp6"
    and "parseNetworkForProtocol fs procFS ''udp'' = Ok udp"
    and "parseNetworkForProtocol fs procFS ''udp6'' = Ok udp6"
    and "parseNetworkForProtocol fs procFS ''unix'' = Ok unix"
    and "parseNetworkForProtocol fs procFS ''netlink'' = Ok netlink"
  shows "protocols = [''tcp'', ''tcp6'', ''udp'', ''udp6'', ''unix'', ''netlink'']
    \<and> parseNetworkInodes fs procFS
        = Ok (store Map.empty (tcp @ tcp6 @ udp @ udp6 @ unix @ netlink))
    \<and> store Map.empty (tcp @ tcp6 @ udp @ udp6 @ unix @ netlink) i
        = find (\<lambda>e. INode e = i) (rev (tcp @ tcp6 @ udp @ udp6 @ unix @ netlink))"
proof (intro conjI)
  show "protocols = [''tcp'', ''tcp6'', ''udp'', ''udp6'', ''unix'', ''netlink'']"
    by (rule protocols_def)
  show "parseNetworkInodes fs procFS
        = Ok (store Map.empty (tcp @ tcp6 @ udp @ udp6 @ unix @ netlink))"
    using assms by (simp add: parseNetworkInodes_def protocols_def store_append)
  show "store Map.empty (tcp @ tcp6 @ udp @ udp6 @ unix @ netlink) i
        = find (\<lambda>e. INode e = i) (rev (tcp @ tcp6 @ udp @ udp6 @ unix @ netlink))"
    by (simp only: store_lookup split: option.splits) simp
qed

lemma decode_unix_collision:
  "decode ''/proc/net/unix''
     (Trim ''0000000000000000: 00000002 00000000 00010000 0001 01 18083222 /run/user/1000/gnupg/S.dirmngr'')
     ''unix'' = Ok (unixEntry\<lparr>INode := 18083222\<rparr>)"
  by (simp add: decode_def Trim_def cutset_def parseUnix_def eval_fields eval_conv eval_entry
      unixEntry_def)

theorem index_folds_families_in_order_witness:
  "parseNetworkInodes
     (exampleFS(''/proc/net/unix'' \<mapsto>
        [unixHeader,
         ''0000000000000000: 00000002 00000000 00010000 0001 01 18083222 /run/user/1000/gnupg/S.dirmngr'']))
     ''/proc''
   = Ok [18083222 \<mapsto> unixEntry\<lparr>INode := 18083222\<rparr>, 27854 \<mapsto> netlinkEntry]
   \<and> INode tcpEntry = 18083222"
proof -
  let ?fs = "exampleFS(''/proc/net/unix'' \<mapsto>
        [unixHeader,
         ''0000000000000000: 00000002 00000000 00010000 0001 01 18083222 /run/user/1000/gnupg/S.dirmngr''])"
  have unix: "parseNetworkForProtocol ?fs ''/proc'' ''unix'' = Ok [unixEntry\<lparr>INode := 18083222\<rparr>]"
    by (simp add: parseNetworkForProtocol_def decode_unix_collision)
  have "parseNetworkInodes ?fs ''/proc''
      = Ok (store Map.empty ([tcpEntry] @ [] @ [] @ [] @ [unixEntry\<lparr>INode := 18083222\<rparr>]
              @ [netlinkEntry]))"
    using index_folds_families_in_order [where fs = ?fs and procFS = "''/proc''"
        and tcp = "[tcpEntry]" and ?tcp6.0 = "[]" and udp = "[]" and ?udp6.0 = "[]"
        and unix = "[unixEntry\<lparr>INode := 18083222\<rparr>]" and netlink = "[netlinkEntry]"]
      unix
    by (simp add: scan_updated scan_example)
  then show ?thesis
    by (simp add: tcpEntry_def netlinkEntry_def)
qed

section \<open>The size of the index\<close>

lemma card_dom_store:
  assumes "distinct (map INode es)"
  shows "card (dom (store Map.empty es)) = length es"
proof -
  have "card (dom (store Map.empty es)) = card (set (map INode es))"
    by (simp add: dom_store)
  also have "\<dots> = length (map INode es)"
    using assms by (rule distinct_card)
  finally show ?thesis by simp
qed

text \<open>
  Claim C6, amended. When the records of two families have no inode in common and no
  inode is repeated among the records of either family, the index built over the two
  families has as many keys as the two families have records.
\<close>

theorem disjoint_families_index_size:
  assumes "parseNetworkForProtocol fs procFS p = Ok ps"
    and "parseNetworkForProtocol fs procFS q = Ok qs"
    and "INode ` set ps \<inter> INode ` set qs = {}"
    and "distinct (map INode ps)" and "distinct (map INode qs)"
  shows "\<exists>m. inodesOf fs procFS [p, q] Map.empty = Ok m
    \<and> card (dom m) = length ps + length qs"
proof -
  have "inodesOf fs procFS [p, q] Map.empty = Ok (store Map.empty (ps @ qs))"
    using assms(1,2) by (simp add: store_append)
  moreover have "distinct (map INode (ps @ qs))"
    using assms(3,4,5) by simp
  then have "card (dom (store Map.empty (ps @ qs))) = length (ps @ qs)"
    by (rule card_dom_store)
  ultimately show ?thesis by simp
qed

theorem disjoint_families_index_size_witness:
  "inodesOf exampleFS ''/proc'' [''tcp'', ''unix''] Map.empty
     = Ok [18083222 \<mapsto> tcpEntry, 28271 \<mapsto> unixEntry]
   \<and> card (dom [(18083222::int) \<mapsto> tcpEntry, 28271 \<mapsto> unixEntry]) = 2"
  using disjoint_families_index_size [where fs = exampleFS and procFS = "''/proc''"
      and p = "''tcp''" and q = "''unix''" and ps = "[tcpEntry]" and qs = "[unixEntry]"]
  by (simp add: scan_example tcpEntry_def unixEntry_def)

lemma decode_time_wait:
  "decode ''/proc/net/tcp''
     (Trim ''   1: 0100007F:13AD 0100007F:A1B2 06 00000000:00000000 03:00000A5F 00000000     0        0 0'')
     ''tcp'' = Ok (tcpEntry\<lparr>State := 6, StateString := ''TIME_WAIT'', DstIP := [127, 0, 0, 1],
        DstPort := 41394, UserId := 0, INode := 0\<rparr>)"
  "decode ''/proc/net/tcp''
     (Trim ''   2: 0100007F:13AD 0100007F:A1B4 06 00000000:00000000 03:00000A5F 00000000     0        0 0'')
     ''tcp'' = Ok (tcpEntry\<lparr>State := 6, StateString := ''TIME_WAIT'', DstIP := [127, 0, 0, 1],
        DstPort := 41396, UserId := 0, INode := 0\<rparr>)"
  by (simp_all add: decode_def Trim_def cutset_def parseIP_def eval_fields eval_conv eval_entry
      tcpEntry_def)

text \<open>
  Without the second condition the sizes differ: two sockets in \<open>TIME_WAIT\<close> both
  have the inode 0 in the tcp table, and with one unix-domain socket the three
  records make an index of two keys.
\<close>

theorem disjoint_families_index_size_counterexample:
  "parseNetworkForProtocol
     (exampleFS(''/proc/net/tcp'' \<mapsto>
        [tcpHeader,
         ''   1: 0100007F:13AD 0100007F:A1B2 06 00000000:00000000 03:00000A5F 00000000     0        0 0'',
         ''   2: 0100007F:13AD 0100007F:A1B4 06 00000000:00000000 03:00000A5F 00000000     0        0 0'']))
     ''/proc'' ''tcp''
   = Ok [tcpEntry\<lparr>State := 6, StateString := ''TIME_WAIT'', DstIP := [127, 0, 0, 1],
           DstPort := 41394, UserId := 0, INode := 0\<rparr>,
         tcpEntry\<lparr>State := 6, StateString := ''TIME_WAIT'', DstIP := [127, 0, 0, 1],
           DstPort := 41396, UserId := 0, INode := 0\<rparr>]
   \<and> parseNetworkForProtocol
     (exampleFS(''/proc/net/tcp'' \<mapsto>
        [tcpHeader,
         ''   1: 0100007F:13AD 0100007F:A1B2 06 00000000:00000000 03:00000A5F 00000000     0        0 0'',
         ''   2: 0100007F:13AD 0100007F:A1B4 06 00000000:00000000 03:00000A5F 00000000     0        0 0'']))
     ''/proc'' ''unix''
   = Ok [unixEntry]
   \<and> INode unixEntry = 28271
   \<and> inodesOf
     (exampleFS(''/proc/net/tcp'' \<mapsto>
        [tcpHeader,
         ''   1: 0100007F:13AD 0100007F:A1B2 06 00000000:00000000 03:00000A5F 00000000     0        0 0'',
         ''   2: 0100007F:13AD 0100007F:A1B4 06 00000000:00000000 03:00000A5F 00000000     0        0 0'']))
     ''/proc'' [''tcp'', ''unix''] Map.empty
   = Ok [0 \<mapsto> tcpEntry\<lparr>State := 6, StateString := ''TIME_WAIT'', DstIP := [127, 0, 0, 1],
           DstPort := 41396, UserId := 0, INode := 0\<rparr>,
         28271 \<mapsto> unixEntry]
   \<and> card (dom [(0::int) \<mapsto> tcpEntry\<lparr>State := 6, StateString := ''TIME_WAIT'',
           DstIP := [127, 0, 0, 1], DstPort := 41396, UserId := 0, INode := 0\<rparr>,
         28271 \<mapsto> unixEntry]) = 2"
proof -
  let ?fs = "exampleFS(''/proc/net/tcp'' \<mapsto>
        [tcpHeader,
         ''   1: 0100007F:13AD 0100007F:A1B2 06 00000000:00000000 03:00000A5F 00000000     0        0 0'',
         ''   2: 0100007F:13AD 0100007F:A1B4 06 00000000:00000000 03:00000A5F 00000000     0        0 0''])"
  have tcp: "parseNetworkForProtocol ?fs ''/proc'' ''tcp''
   = Ok [tcpEntry\<lparr>State := 6, StateString := ''TIME_WAIT'', DstIP := [127, 0, 0, 1],
           DstPort := 41394, UserId := 0, INode := 0\<rparr>,
         tcpEntry\<lparr>State := 6, StateString := ''TIME_WAIT'', DstIP := [127, 0, 0, 1],
           DstPort := 41396, UserId := 0, INode := 0\<rparr>]"
    by (simp add: parseNetworkForProtocol_def decode_time_wait)
  have unix: "parseNetworkForProtocol ?fs ''/proc'' ''unix'' = Ok [unixEntry]"
    by (simp add: scan_updated scan_example)
  show ?thesis
    by (simp add: tcp unix) (simp add: unixEntry_def tcpEntry_def)
qed

section \<open>The resolution of the search\<close>

lemma indexFrom_found: "indexFrom i s substr \<noteq> - 1 \<longleftrightarrow> sublist substr s"
proof (induction s arbitrary: i)
  case Nil
  show ?case by simp
next
  case (Cons c cs)
  show ?case
  proof (cases "prefix substr (c # cs)")
    case True
    then show ?thesis by (simp add: prefix_imp_sublist)
  next
    case False
    then show ?thesis using Cons.IH [of "i + 1"] by (simp add: sublist_Cons_right)
  qed
qed

lemma Index_found: "Index s substr \<noteq> - 1 \<longleftrightarrow> sublist substr s"
  by (simp add: Index_def indexFrom_found)

lemma matching_filter:
  assumes "targetName \<noteq> []"
  shows "filter (\<lambda>p. Comm p \<noteq> [] \<and> Index (Comm p) targetName \<noteq> - 1) procs
    = matching targetName procs"
proof -
  have "sublist targetName s \<Longrightarrow> s \<noteq> []" for s
    using assms by auto
  then show ?thesis
    unfolding matching_def by (intro filter_cong) (auto simp: Index_found)
qed

lemma matchLoop_eq:
  "matchLoop targetName procs pids al =
     (pids @ map PID (filter (\<lambda>p. Comm p \<noteq> [] \<and> Index (Comm p) targetName \<noteq> - 1) procs),
      foldl (\<lambda>al p. AList.update (PID p) p al) al
        (filter (\<lambda>p. Comm p \<noteq> [] \<and> Index (Comm p) targetName \<noteq> - 1) procs))"
  by (induction procs arbitrary: pids al) simp_all

lemma updates_keys:
  "fst ` set (foldl (\<lambda>al p. AList.update (PID p) p al) al ms) = fst ` set al \<union> PID ` set ms"
  by (induction ms arbitrary: al) (auto simp: AList.dom_update)

lemma updates_distinct:
  "distinct (map fst al) \<Longrightarrow>
   distinct (map fst (foldl (\<lambda>al p. AList.update (PID p) p al) al ms))"
  by (induction ms arbitrary: al) (simp_all add: AList.distinct_update)

lemma updates_length:
  "length (foldl (\<lambda>al p. AList.update (PID p) p al) [] ms) = card (PID ` set ms)"
proof -
  let ?al = "foldl (\<lambda>al p. AList.update (PID p) p al) [] ms"
  have "distinct (map fst ?al)" by (rule updates_distinct) simp
  then have "card (set (map fst ?al)) = length (map fst ?al)" by (rule distinct_card)
  then show ?thesis using updates_keys [of "[]" ms] by simp
qed

lemma updates_map_of:
  "map_of (foldl (\<lambda>al p. AList.update (PID p) p al) al ms)
     = map_of (map (\<lambda>p. (PID p, p)) (rev ms) @ al)"
  by (induction ms arbitrary: al) (auto simp: AList.update_conv' map_add_def fun_eq_iff split: option.splits)

lemma reportLine_cong: "map_of al = map_of al' \<Longrightarrow> reportLine al = reportLine al'"
  by (simp add: reportLine_def fun_eq_iff)

lemma searchTarget_unfold:
  assumes "targetName \<noteq> []"
  shows "searchTarget targetName (Inr procs) targetPID selfPID =
    (let ms = matching targetName procs;
         matches = foldl (\<lambda>al p. AList.update (PID p) p al) [] ms;
         num = length matches in
     if num = 0 then
       Exits 1 [''no matches for '' @ [CHR 0x27] @ targetName @ [CHR 0x27, CHR 0x0A]]
     else if num > 1 then
       Exits 0 ((''multiple matches for '' @ [CHR 0x27] @ targetName
                   @ [CHR 0x27, CHR '':'', CHR 0x0A])
                # map (reportLine matches) (sort (map PID ms)))
     else
       (case matches of
          (pid, proc) # others \<Rightarrow> Returns pid []
        | [] \<Rightarrow> defaultTarget targetPID selfPID))"
  using assms
  by (simp add: searchTarget_def matchLoop_eq matching_filter Let_def)

text \<open>
  Claim C8, amended. For a search string that is not empty and a process listing that
  was read: when no process name holds the string the program prints that there are
  no matches and exits with status 1; when processes with more than one identifier
  match it prints them, one line for each match in ascending order of the
  identifiers, and exits with status 0, choosing none; when the matches have one
  identifier, that one becomes the target.
\<close>

theorem searchTarget_resolution:
  assumes "targetName \<noteq> []"
  shows "(matching targetName procs = [] \<longrightarrow>
       searchTarget targetName (Inr procs) targetPID selfPID
         = Exits 1 [''no matches for '' @ [CHR 0x27] @ targetName @ [CHR 0x27, CHR 0x0A]])
    \<and> (1 < card (PID ` set (matching targetName procs)) \<longrightarrow>
       searchTarget targetName (Inr procs) targetPID selfPID
         = Exits 0 ((''multiple matches for '' @ [CHR 0x27] @ targetName
                      @ [CHR 0x27, CHR '':'', CHR 0x0A])
                    # map (reportLine (map (\<lambda>p. (PID p, p)) (rev (matching targetName procs))))
                        (sort (map PID (matching targetName procs))))
       \<and> sorted (sort (map PID (matching targetName procs))))
    \<and> (PID ` set (matching targetName procs) = {pid} \<longrightarrow>
       searchTarget targetName (Inr procs) targetPID selfPID = Returns pid [])"
proof (intro conjI impI)
  let ?ms = "matching targetName procs"
  let ?al = "foldl (\<lambda>al p. AList.update (PID p) p al) [] ?ms"
  note unfold = searchTarget_unfold [OF assms, of procs targetPID selfPID]
  have len: "length ?al = card (PID ` set ?ms)" by (rule updates_length)
  have keys: "fst ` set ?al = PID ` set ?ms" using updates_keys [of "[]" ?ms] by simp
  have rep: "reportLine ?al = reportLine (map (\<lambda>p. (PID p, p)) (rev ?ms))"
    using updates_map_of [of "[]" ?ms] by (intro reportLine_cong) simp
  show "searchTarget targetName (Inr procs) targetPID selfPID
         = Exits 1 [''no matches for '' @ [CHR 0x27] @ targetName @ [CHR 0x27, CHR 0x0A]]"
    if "?ms = []"
    using unfold that by simp
  show "searchTarget targetName (Inr procs) targetPID selfPID
         = Exits 0 ((''multiple matches for '' @ [CHR 0x27] @ targetName
                      @ [CHR 0x27, CHR '':'', CHR 0x0A])
                    # map (reportLine (map (\<lambda>p. (PID p, p)) (rev ?ms))) (sort (map PID ?ms)))"
    if "1 < card (PID ` set ?ms)"
  proof -
    from that len have many: "1 < length ?al" by simp
    then have "length ?al \<noteq> 0" by auto
    with many show ?thesis
      unfolding unfold Let_def rep by (simp only: if_False if_True)
  qed
  show "sorted (sort (map PID ?ms))" by simp
  show "searchTarget targetName (Inr procs) targetPID selfPID = Returns pid []"
    if one: "PID ` set ?ms = {pid}"
  proof -
    from one len have l1: "length ?al = 1" by simp
    then obtain k v where al: "?al = [(k, v)]"
      by (cases ?al; cases "tl ?al") auto
    with keys one have "k = pid" by simp
    with unfold l1 al show ?thesis by (simp add: Let_def)
  qed
qed

lemma sublist_ssh:
  "sublist ''ssh'' ''sshd''" "sublist ''ssh'' ''ssh-agent''" "\<not> sublist ''ssh'' ''bash''"
  "sublist ''bash'' ''bash''" "\<not> sublist ''bash'' ''sshd''" "\<not> sublist ''bash'' ''ssh-agent''"
  "\<not> sublist ''zsh'' ''bash''" "\<not> sublist ''zsh'' ''sshd''" "\<not> sublist ''zsh'' ''ssh-agent''"
  by (simp_all add: sublist_Cons_right)

theorem searchTarget_resolution_witness:
  "searchTarget ''zsh'' (Inr [sshd, agent, bash]) 0 4242
     = Exits 1 [''no matches for '' @ [CHR 0x27] @ ''zsh'' @ [CHR 0x27, CHR 0x0A]]
   \<and> searchTarget ''ssh'' (Inr [sshd, agent, bash]) 0 4242
     = Exits 0 [''multiple matches for '' @ [CHR 0x27] @ ''ssh'' @ [CHR 0x27, CHR '':'', CHR 0x0A],
                ''[7] (ssh-agent) ssh-agent'' @ [CHR 0x0A],
                ''[30] (sshd) /usr/sbin/sshd -D'' @ [CHR 0x0A]]
   \<and> searchTarget ''bash'' (Inr [sshd, agent, bash]) 0 4242 = Returns 9 []"
  using searchTarget_resolution [where targetName = "''zsh''" and procs = "[sshd, agent, bash]"
      and targetPID = 0 and selfPID = 4242]
    searchTarget_resolution [where targetName = "''ssh''" and procs = "[sshd, agent, bash]"
      and targetPID = 0 and selfPID = 4242]
    searchTarget_resolution [where targetName = "''bash''" and procs = "[sshd, agent, bash]"
      and targetPID = 0 and selfPID = 4242 and pid = 9]
  by (simp add: matching_def sshd_def agent_def bash_def sublist_ssh reportLine_def fmt_d_def
      natDigits.simps digitChar_def)

text \<open>
  With the empty search string no search is made: the function returns with the
  target given on the command line, or the program itself, whatever the processes.
\<close>

theorem searchTarget_empty_counterexample:
  "searchTarget [] (Inr []) 0 4242 = Returns 4242 []
   \<and> sublist [] (Comm sshd) \<and> sublist [] (Comm agent) \<and> PID sshd \<noteq> PID agent
   \<and> searchTarget [] (Inr [sshd, agent]) 0 4242 = Returns 4242 []"
  by (simp add: searchTarget_def defaultTarget_def sshd_def agent_def)

end
